theory Spec2Isabelle
  imports
    Complex_Main
    "HOL-Library.Char_ord"
    "HOL-Library.List_Lexorder"
    "HOL-Library.Option_ord"
    "HOL-Library.Product_Lexorder"
    "HOL-Library.Multiset"
begin

section \<open>Accounts-receivable balance engine: data model\<close>

text \<open>
  The engine works on pandas data frames. A frame is modelled as the list of its column
  names together with the list of its rows; a row is a record with one field per column
  the engine reads or writes, named as the column is. A field of a row whose column is
  not among \<open>columns\<close> carries no meaning: the source reads a column only after the
  membership test \<open>"X" in df.columns\<close>, or raises \<open>KeyError\<close>.

  Amounts are exact reals (the source computes in binary floating point), dates are day
  numbers, document ids are integers, and a missing cell (\<open>NaN\<close>, \<open>NaT\<close>, \<open>None\<close>) is
  \<open>None\<close>. The type parameter \<open>'n\<close> is the type of the two numeric columns: \<open>real\<close>
  after \<open>_preparar\<close> of \<open>reporte_cxc.py\<close> and \<open>kpis.py\<close> (which ends in \<open>fillna(0)\<close>),
  \<open>real option\<close> after \<open>Auditor._preparar_datos\<close> (which does not fill).
\<close>

datatype celda = Nulo | Texto string | Entero int | Logico bool

record 'n fila =
  DOCTO_CC_ID :: "int option"
  DOCTO_CC_ACR_ID :: "int option"
  TIPO_IMPTE :: string
  NOMBRE_CLIENTE :: "string option"
  FECHA_EMISION :: "int option"
  FECHA_VENCIMIENTO :: "int option"
  IMPORTE :: 'n
  IMPUESTO :: 'n
  CANCELADO :: celda
  TIPO_CLIENTE :: "string option"
  VENDEDOR :: "string option"
  FECHA_HORA_CREACION :: "int option"
  FECHA_HORA_CANCELACION :: "int option"
  SALDO_FACTURA :: "real option"
  DELTA_RECAUDO :: "real option"
  CATEGORIA_RECAUDO :: string
  DELTA_MORA :: "real option"
  CATEGORIA_MORA :: string
  SALDO_CLIENTE :: "real option"
  BAND_GROUP :: nat
  ZSCORE_IMPORTE :: "real option"
  ATIPICO_IMPORTE :: "bool option"
  ZSCORE_DELTA_RECAUDO :: "real option"
  ATIPICO_DELTA_RECAUDO :: "bool option"
  ZSCORE_DELTA_MORA :: "real option"
  ATIPICO_DELTA_MORA :: "bool option"
  MONTO_CARGO :: real
  MONTO_ABONOS :: real
  SALDO :: real
  MOTIVO :: string
  DIAS_HASTA_CANCELACION :: "int option"

record 'r df =
  columns :: "string list"
  filas :: "'r list"

datatype error = KeyError

text \<open>\<open>pd.DataFrame()\<close>: no columns, no rows.\<close>

definition DataFrame_vacio :: "'r df" where
  "DataFrame_vacio = \<lparr>columns = [], filas = []\<rparr>"

text \<open>\<open>df["X"] = ...\<close> appends the column when it is new and keeps its place otherwise.\<close>

definition con_columna :: "string \<Rightarrow> string list \<Rightarrow> string list" where
  "con_columna c cs = (if c \<in> set cs then cs else cs @ [c])"

subsection \<open>Rounding\<close>

text \<open>
  \<open>Series.round(n)\<close> and Python's \<open>round(x, n)\<close> round to \<open>n\<close> decimals, halves to the
  even neighbour. \<open>rint\<close> is the rounding to an integer, \<open>round_dec n\<close> scales by
  \<open>10 ^ n\<close> around it.
\<close>

definition rint :: "real \<Rightarrow> int" where
  "rint x =
     (let f = \<lfloor>x\<rfloor>; d = x - of_int f
      in if d < 1 / 2 then f else if 1 / 2 < d then f + 1 else if even f then f else f + 1)"

definition round_dec :: "nat \<Rightarrow> real \<Rightarrow> real" where
  "round_dec n x = of_int (rint (x * 10 ^ n)) / 10 ^ n"

subsection \<open>Filtering cancelled documents and unapplied advances\<close>

text \<open>\<open>_CANCELADO_VALUES = ["S", "SI", "s", "si", 1, True, "1"]\<close> and \<open>Series.isin\<close> on it.\<close>

fun isin_CANCELADO_VALUES :: "celda \<Rightarrow> bool" where
  "isin_CANCELADO_VALUES (Texto s) = (s \<in> set [''S'', ''SI'', ''s'', ''si'', ''1''])"
| "isin_CANCELADO_VALUES (Entero n) = (n = 1)"
| "isin_CANCELADO_VALUES (Logico b) = b"
| "isin_CANCELADO_VALUES Nulo = False"

text \<open>\<open>reporte_cxc._filtrar_movimientos\<close>; \<open>kpis._filtrar_activos\<close> has the same body.\<close>

definition filtrar_movimientos :: "'n fila df \<Rightarrow> 'n fila df" where
  "filtrar_movimientos df =
     (let f1 = (if ''CANCELADO'' \<in> set (columns df)
                then filter (\<lambda>r. \<not> isin_CANCELADO_VALUES (CANCELADO r)) (filas df)
                else filas df);
          f2 = (if ''TIPO_IMPTE'' \<in> set (columns df)
                then filter (\<lambda>r. TIPO_IMPTE r \<noteq> ''A'') f1
                else f1)
      in df\<lparr>filas := f2\<rparr>)"

definition filtrar_activos :: "'n fila df \<Rightarrow> 'n fila df" where
  "filtrar_activos df =
     (let f1 = (if ''CANCELADO'' \<in> set (columns df)
                then filter (\<lambda>r. \<not> isin_CANCELADO_VALUES (CANCELADO r)) (filas df)
                else filas df);
          f2 = (if ''TIPO_IMPTE'' \<in> set (columns df)
                then filter (\<lambda>r. TIPO_IMPTE r \<noteq> ''A'') f1
                else f1)
      in df\<lparr>filas := f2\<rparr>)"

subsection \<open>Balance per invoice\<close>

text \<open>The temporary column \<open>_MONTO = IMPORTE + IMPUESTO\<close>.\<close>

definition monto :: "real fila \<Rightarrow> real" where
  "monto r = IMPORTE r + IMPUESTO r"

text \<open>
  \<open>df.loc[es_abono & df["DOCTO_CC_ACR_ID"].notna()].groupby("DOCTO_CC_ACR_ID")["_MONTO"].sum()\<close>:
  a series indexed by the referenced id; an id that no payment references is not in
  its index.
\<close>

definition abonos_por_cargo :: "real fila list \<Rightarrow> int \<Rightarrow> real option" where
  "abonos_por_cargo fs k =
     (let g = filter (\<lambda>p. TIPO_IMPTE p = ''R'' \<and> DOCTO_CC_ACR_ID p = Some k) fs
      in if g = [] then None else Some (sum_list (map monto g)))"

text \<open>\<open>cargo_ids.map(abonos_por_cargo).fillna(0)\<close> at one charge.\<close>

definition abonos_de :: "real fila list \<Rightarrow> real fila \<Rightarrow> real" where
  "abonos_de fs r =
     (case DOCTO_CC_ID r of
        None \<Rightarrow> 0
      | Some k \<Rightarrow> (case abonos_por_cargo fs k of None \<Rightarrow> 0 | Some s \<Rightarrow> s))"

text \<open>
  \<open>reporte_cxc._calcular_saldo_factura\<close>. The columns \<open>IMPORTE\<close>, \<open>IMPUESTO\<close> and
  \<open>TIPO_IMPTE\<close> are read without a test.
\<close>

definition calcular_saldo_factura :: "real fila df \<Rightarrow> error + real fila df" where
  "calcular_saldo_factura df =
     (if \<not> set [''IMPORTE'', ''IMPUESTO'', ''TIPO_IMPTE''] \<subseteq> set (columns df) then Inl KeyError
      else
        let fs = filas df;
            saldo = (if ''DOCTO_CC_ACR_ID'' \<in> set (columns df) \<and> ''DOCTO_CC_ID'' \<in> set (columns df)
                     then (\<lambda>r. monto r - abonos_de fs r)
                     else (\<lambda>r. monto r))
        in Inr (df\<lparr>columns := con_columna ''SALDO_FACTURA'' (columns df),
                   filas := map (\<lambda>r. r\<lparr>SALDO_FACTURA :=
                               (if TIPO_IMPTE r = ''C'' then Some (round_dec 2 (saldo r)) else None)\<rparr>) fs\<rparr>))"

text \<open>
  \<open>kpis._saldos_por_factura\<close>: one row per charge, with the columns of \<open>cols_cargo\<close>
  that the frame has, then \<open>MONTO_ABONOS\<close> and \<open>SALDO\<close>.
\<close>

definition saldos_por_factura :: "real fila df \<Rightarrow> error + real fila df" where
  "saldos_por_factura df =
     (if \<not> set [''IMPORTE'', ''IMPUESTO'', ''TIPO_IMPTE''] \<subseteq> set (columns df) then Inl KeyError
      else
        let fs = filas df;
            cols_disponibles =
              filter (\<lambda>c. c \<in> set (columns df) \<or> c = ''_MONTO'')
                [''DOCTO_CC_ID'', ''NOMBRE_CLIENTE'', ''FECHA_VENCIMIENTO'', ''FECHA_EMISION'', ''_MONTO''];
            cols_cargos = map (\<lambda>c. if c = ''_MONTO'' then ''MONTO_CARGO'' else c) cols_disponibles;
            cargos = map (\<lambda>r. r\<lparr>MONTO_CARGO := monto r\<rparr>) (filter (\<lambda>r. TIPO_IMPTE r = ''C'') fs);
            abonos = (if ''DOCTO_CC_ACR_ID'' \<in> set (columns df) \<and> ''DOCTO_CC_ID'' \<in> set cols_cargos
                      then (\<lambda>r. abonos_de fs r)
                      else (\<lambda>r. 0))
        in Inr \<lparr>columns = cols_cargos @ [''MONTO_ABONOS'', ''SALDO''],
                filas = map (\<lambda>r. r\<lparr>MONTO_ABONOS := abonos r,
                                     SALDO := round_dec 2 (MONTO_CARGO r - abonos r)\<rparr>) cargos\<rparr>)"

subsection \<open>Collection-cycle metrics\<close>

text \<open>
  \<open>groupby("DOCTO_CC_ACR_ID")["FECHA_EMISION"].max()\<close> over the payment rows with a
  reference: the latest issue date per referenced id, missing dates skipped.
\<close>

fun maximo :: "int list \<Rightarrow> int option" where
  "maximo [] = None"
| "maximo (x # xs) = (case maximo xs of None \<Rightarrow> Some x | Some m \<Rightarrow> Some (max x m))"

definition ultimo_abono :: "real fila list \<Rightarrow> int \<Rightarrow> int option" where
  "ultimo_abono fs k =
     maximo (List.map_filter FECHA_EMISION
               (filter (\<lambda>p. TIPO_IMPTE p = ''R'' \<and> DOCTO_CC_ACR_ID p = Some k) fs))"

text \<open>\<open>np.select(condiciones_recaudo, categorias_recaudo, default="")\<close>: the first
  condition that holds decides.\<close>

definition categoria_recaudo :: "real \<Rightarrow> string" where
  "categoria_recaudo d =
     (if d < 0 then ''Pago anticipado''
      else if d = 0 then ''Pago puntual''
      else if 1 \<le> d \<and> d \<le> 15 then ''Retraso leve (1-15)''
      else if 16 \<le> d \<and> d \<le> 30 then ''Retraso moderado (16-30)''
      else if 31 \<le> d \<and> d \<le> 60 then ''Retraso alto (31-60)''
      else if 60 < d then ''Retraso critico (>60)''
      else '''')"

definition categoria_mora :: "real \<Rightarrow> string" where
  "categoria_mora d =
     (if d \<le> 0 then ''Por vencer''
      else if 1 \<le> d \<and> d \<le> 30 then ''Mora temprana (1-30)''
      else if 31 \<le> d \<and> d \<le> 60 then ''Mora media (31-60)''
      else if 61 \<le> d \<and> d \<le> 90 then ''Mora alta (61-90)''
      else if 90 < d then ''Mora critica (>90)''
      else '''')"

text \<open>The two row masks: \<open>SALDO_FACTURA == 0\<close> and \<open>SALDO_FACTURA > 0\<close> on charge rows.
  A comparison with a missing balance is false.\<close>

definition es_pagada :: "real fila \<Rightarrow> bool" where
  "es_pagada r = (TIPO_IMPTE r = ''C'' \<and> SALDO_FACTURA r = Some 0)"

definition es_abierta :: "real fila \<Rightarrow> bool" where
  "es_abierta r = (TIPO_IMPTE r = ''C'' \<and> (case SALDO_FACTURA r of None \<Rightarrow> False | Some s \<Rightarrow> 0 < s))"

text \<open>
  \<open>reporte_cxc._calcular_metricas_ciclo\<close>, with today's date \<open>hoy\<close> as a parameter.
  \<open>TIPO_IMPTE\<close> and \<open>SALDO_FACTURA\<close> are read without a test, and so is
  \<open>FECHA_VENCIMIENTO\<close> inside the branch of the paid charges.
\<close>

definition calcular_metricas_ciclo :: "int \<Rightarrow> real fila df \<Rightarrow> error + real fila df" where
  "calcular_metricas_ciclo hoy df =
     (let cs = columns df; fs = filas df;
          rama_recaudo = ((\<exists>r \<in> set fs. es_pagada r) \<and> ''DOCTO_CC_ACR_ID'' \<in> set cs
                          \<and> ''DOCTO_CC_ID'' \<in> set cs \<and> ''FECHA_EMISION'' \<in> set cs);
          rama_mora = ((\<exists>r \<in> set fs. es_abierta r) \<and> ''FECHA_VENCIMIENTO'' \<in> set cs)
      in if \<not> set [''TIPO_IMPTE'', ''SALDO_FACTURA''] \<subseteq> set cs then Inl KeyError
         else if rama_recaudo \<and> ''FECHA_VENCIMIENTO'' \<notin> set cs then Inl KeyError
         else
           let recaudo = (\<lambda>r.
                 if rama_recaudo \<and> es_pagada r then
                   (let fecha_ultimo = (case DOCTO_CC_ID r of None \<Rightarrow> None | Some k \<Rightarrow> ultimo_abono fs k);
                        recaudo_dias = (case (fecha_ultimo, FECHA_VENCIMIENTO r) of
                                          (Some u, Some v) \<Rightarrow> Some (real_of_int (u - v))
                                        | _ \<Rightarrow> None)
                    in r\<lparr>DELTA_RECAUDO := recaudo_dias,
                         CATEGORIA_RECAUDO := (case recaudo_dias of None \<Rightarrow> '''' | Some d \<Rightarrow> categoria_recaudo d)\<rparr>)
                 else r\<lparr>DELTA_RECAUDO := None, CATEGORIA_RECAUDO := ''''\<rparr>);
               mora = (\<lambda>r.
                 if rama_mora \<and> es_abierta r then
                   (let mora_dias = (case FECHA_VENCIMIENTO r of None \<Rightarrow> None
                                     | Some v \<Rightarrow> Some (real_of_int (hoy - v)))
                    in r\<lparr>DELTA_MORA := mora_dias,
                         CATEGORIA_MORA := (case mora_dias of None \<Rightarrow> '''' | Some d \<Rightarrow> categoria_mora d)\<rparr>)
                 else r\<lparr>DELTA_MORA := None, CATEGORIA_MORA := ''''\<rparr>)
           in Inr (df\<lparr>columns := con_columna ''CATEGORIA_MORA'' (con_columna ''DELTA_MORA''
                                   (con_columna ''CATEGORIA_RECAUDO'' (con_columna ''DELTA_RECAUDO'' cs))),
                      filas := map (\<lambda>r. mora (recaudo r)) fs\<rparr>))"

subsection \<open>Running balance per client\<close>

text \<open>
  \<open>sort_values(sort_cols, na_position="first")\<close> over those of \<open>NOMBRE_CLIENTE\<close>,
  \<open>DOCTO_CC_ACR_ID\<close>, \<open>DOCTO_CC_ID\<close>, \<open>FECHA_EMISION\<close> that the frame has. The key of
  a row is the tuple of these cells, a column that is absent contributing the same
  value for every row; \<open>None\<close> is the least element of the order on \<open>option\<close>, which
  puts missing cells first. The sort is the stable one.
\<close>

definition clave_saldo_cliente ::
  "string list \<Rightarrow> real fila \<Rightarrow> string option \<times> int option \<times> int option \<times> int option" where
  "clave_saldo_cliente cs r =
     (if ''NOMBRE_CLIENTE'' \<in> set cs then NOMBRE_CLIENTE r else None,
      if ''DOCTO_CC_ACR_ID'' \<in> set cs then DOCTO_CC_ACR_ID r else None,
      if ''DOCTO_CC_ID'' \<in> set cs then DOCTO_CC_ID r else None,
      if ''FECHA_EMISION'' \<in> set cs then FECHA_EMISION r else None)"

text \<open>The signed movement of a row: a charge adds its amount, a payment subtracts it.\<close>

definition movimiento :: "real fila \<Rightarrow> real" where
  "movimiento r =
     (if TIPO_IMPTE r = ''C'' then monto r else if TIPO_IMPTE r = ''R'' then - monto r else 0)"

text \<open>\<open>movimiento.groupby(df["NOMBRE_CLIENTE"]).cumsum().round(2)\<close>: \<open>acc\<close> holds the sum
  so far of each client. \<open>groupby\<close> leaves out the rows without a client name, which
  get no running balance.\<close>

fun cumsum_por_cliente :: "(string \<Rightarrow> real) \<Rightarrow> real fila list \<Rightarrow> real fila list" where
  "cumsum_por_cliente acc [] = []"
| "cumsum_por_cliente acc (r # rs) =
     (case NOMBRE_CLIENTE r of
        None \<Rightarrow> r\<lparr>SALDO_CLIENTE := None\<rparr> # cumsum_por_cliente acc rs
      | Some c \<Rightarrow>
          (let s = acc c + movimiento r
           in r\<lparr>SALDO_CLIENTE := Some (round_dec 2 s)\<rparr>
                # cumsum_por_cliente (acc(c := s)) rs))"

text \<open>\<open>reporte_cxc._calcular_saldo_cliente\<close>.\<close>

definition calcular_saldo_cliente :: "real fila df \<Rightarrow> error + real fila df" where
  "calcular_saldo_cliente df =
     (if \<not> set [''IMPORTE'', ''IMPUESTO'', ''TIPO_IMPTE'', ''NOMBRE_CLIENTE''] \<subseteq> set (columns df)
      then Inl KeyError
      else Inr (df\<lparr>columns := con_columna ''SALDO_CLIENTE'' (columns df),
                   filas := cumsum_por_cliente (\<lambda>_. 0)
                              (sort_key (clave_saldo_cliente (columns df)) (filas df))\<rparr>))"

subsection \<open>Views of open and closed invoices\<close>

text \<open>
  \<open>reporte_cxc.agregar_bandas_grupo\<close>. \<open>_GRUPO_CARGO\<close> is the id of a charge and, for
  any other row, the id it references (its own id when it has no reference, or when
  the frame has no reference column).
\<close>

definition grupo_cargo :: "string list \<Rightarrow> real fila \<Rightarrow> int option" where
  "grupo_cargo cs r =
     (if TIPO_IMPTE r = ''C'' then DOCTO_CC_ID r
      else if ''DOCTO_CC_ACR_ID'' \<in> set cs
           then (case DOCTO_CC_ACR_ID r of None \<Rightarrow> DOCTO_CC_ID r | Some k \<Rightarrow> Some k)
           else DOCTO_CC_ID r)"

definition clave_bandas ::
  "string list \<Rightarrow> real fila \<Rightarrow> string option \<times> int option \<times> string \<times> int option" where
  "clave_bandas cs r =
     (if ''NOMBRE_CLIENTE'' \<in> set cs then NOMBRE_CLIENTE r else None,
      grupo_cargo cs r,
      TIPO_IMPTE r,
      if ''FECHA_EMISION'' \<in> set cs then FECHA_EMISION r else None)"

text \<open>
  \<open>cambio = df["_GRUPO_CARGO"] != df["_GRUPO_CARGO"].shift()\<close> and
  \<open>cambio.cumsum() % 2\<close>: \<open>prev\<close> is the group of the row before (\<open>None\<close> at the first
  row), \<open>n\<close> the number of changes so far. A missing group differs from everything.
\<close>

fun bandas :: "string list \<Rightarrow> int option option \<Rightarrow> nat \<Rightarrow> real fila list \<Rightarrow> real fila list" where
  "bandas cs prev n [] = []"
| "bandas cs prev n (r # rs) =
     (let g = grupo_cargo cs r;
          n' = (if g \<noteq> None \<and> prev = Some g then n else n + 1)
      in r\<lparr>BAND_GROUP := n' mod 2\<rparr> # bandas cs (Some g) n' rs)"

definition agregar_bandas_grupo :: "real fila df \<Rightarrow> real fila df" where
  "agregar_bandas_grupo df =
     (if ''DOCTO_CC_ID'' \<notin> set (columns df) \<or> ''TIPO_IMPTE'' \<notin> set (columns df)
      then df\<lparr>columns := con_columna ''_BAND_GROUP'' (columns df),
              filas := map (\<lambda>r. r\<lparr>BAND_GROUP := 0\<rparr>) (filas df)\<rparr>
      else df\<lparr>columns := con_columna ''_BAND_GROUP'' (columns df),
              filas := bandas (columns df) None 0
                         (sort_key (clave_bandas (columns df)) (filas df))\<rparr>)"

text \<open>\<open>reporte_cxc._extraer_facturas_abiertas\<close>: the charges with a positive balance and
  the payments that reference one of them.\<close>

definition extraer_facturas_abiertas :: "real fila df \<Rightarrow> real fila df" where
  "extraer_facturas_abiertas df =
     (if ''SALDO_FACTURA'' \<notin> set (columns df) \<or> ''TIPO_IMPTE'' \<notin> set (columns df)
      then DataFrame_vacio
      else
        let cargos_abiertos = filter es_abierta (filas df)
        in if cargos_abiertos = [] then DataFrame_vacio
           else
             let ids_abiertos = (if ''DOCTO_CC_ID'' \<in> set (columns df)
                                 then List.map_filter DOCTO_CC_ID cargos_abiertos else []);
                 abonos_parciales =
                   (if ids_abiertos \<noteq> [] \<and> ''DOCTO_CC_ACR_ID'' \<in> set (columns df)
                    then filter (\<lambda>r. TIPO_IMPTE r = ''R''
                                     \<and> (case DOCTO_CC_ACR_ID r of None \<Rightarrow> False
                                         | Some k \<Rightarrow> k \<in> set ids_abiertos)) (filas df)
                    else [])
             in agregar_bandas_grupo (df\<lparr>filas := cargos_abiertos @ abonos_parciales\<rparr>))"

text \<open>\<open>reporte_cxc._extraer_facturas_cerradas\<close>: the charges whose balance is zero and
  the payments that reference one of them.\<close>

definition extraer_facturas_cerradas :: "real fila df \<Rightarrow> real fila df" where
  "extraer_facturas_cerradas df =
     (if ''SALDO_FACTURA'' \<notin> set (columns df) \<or> ''TIPO_IMPTE'' \<notin> set (columns df)
      then DataFrame_vacio
      else
        let cargos_cerrados = filter es_pagada (filas df)
        in if cargos_cerrados = [] then DataFrame_vacio
           else
             let ids_cerrados = (if ''DOCTO_CC_ID'' \<in> set (columns df)
                                 then List.map_filter DOCTO_CC_ID cargos_cerrados else []);
                 abonos_completos =
                   (if ids_cerrados \<noteq> [] \<and> ''DOCTO_CC_ACR_ID'' \<in> set (columns df)
                    then filter (\<lambda>r. TIPO_IMPTE r = ''R''
                                     \<and> (case DOCTO_CC_ACR_ID r of None \<Rightarrow> False
                                         | Some k \<Rightarrow> k \<in> set ids_cerrados)) (filas df)
                    else [])
             in agregar_bandas_grupo (df\<lparr>filas := cargos_cerrados @ abonos_completos\<rparr>))"

subsection \<open>Z-scores\<close>

text \<open>
  \<open>Series.mean()\<close> of a series without missing values, and the sample standard
  deviation: pandas' \<open>Series.std()\<close> has \<open>ddof=1\<close>, the sum of squared deviations is
  divided by \<open>n - 1\<close>. \<open>std\<close> is that quantity in exact arithmetic.

  The program computes \<open>Series.mean()\<close> and \<open>Series.std()\<close> in binary floating
  point, and what it computes decides a test, \<open>std() > 0\<close> or \<open>std() == 0\<close>: for a
  constant series the computed deviation is often a small positive number where the
  exact one is zero, and the computed mean is then not the common value. The functions
  below therefore take the two statistics as the program computes them as a parameter,
  \<open>est\<close>, of which nothing is assumed; \<open>exacta\<close> is the instance without rounding.
  Every call in the source is guarded by a test that the series has at least three
  values.
\<close>

definition mean :: "real list \<Rightarrow> real" where
  "mean xs = sum_list xs / real (length xs)"

definition std :: "real list \<Rightarrow> real" where
  "std xs = sqrt (sum_list (map (\<lambda>x. (x - mean xs)\<^sup>2) xs) / (real (length xs) - 1))"

record estadistica =
  media :: "real list \<Rightarrow> real"
  desv :: "real list \<Rightarrow> real"

definition exacta :: estadistica where
  "exacta = \<lparr>media = mean, desv = std\<rparr>"

text \<open>\<open>np.abs((v - serie.mean()) / serie.std())\<close> at one value.\<close>

definition zscore :: "estadistica \<Rightarrow> real list \<Rightarrow> real \<Rightarrow> real" where
  "zscore est serie v = \<bar>(v - media est serie) / desv est serie\<bar>"

text \<open>\<open>reporte_cxc._insertar_columna_despues\<close>, on the list of column names.\<close>

definition insertar_columna_despues :: "string list \<Rightarrow> string \<Rightarrow> string \<Rightarrow> string list" where
  "insertar_columna_despues cs referencia nombre =
     (let pos = (if referencia \<in> set cs
                 then length (takeWhile (\<lambda>c. c \<noteq> referencia) cs) + 1
                 else length cs)
      in take pos cs @ [nombre] @ drop pos cs)"

definition COLS_TRAZABILIDAD :: "string list" where
  "COLS_TRAZABILIDAD =
     [''USUARIO_CREADOR'', ''FECHA_HORA_CREACION'', ''USUARIO_ULT_MODIF'',
      ''FECHA_HORA_ULT_MODIF'', ''USUARIO_CANCELACION'', ''FECHA_HORA_CANCELACION'']"

text \<open>The order of the columns that \<open>_agregar_zscores\<close> leaves.\<close>

definition columnas_zscores :: "string list \<Rightarrow> string list" where
  "columnas_zscores cs =
     (let c1 = (if ''SALDO_CLIENTE'' \<in> set cs \<and> ''DELTA_RECAUDO'' \<in> set cs
                then (let sin = removeAll ''SALDO_CLIENTE'' cs;
                          pos = length (takeWhile (\<lambda>c. c \<noteq> ''DELTA_RECAUDO'') sin)
                      in take pos sin @ [''SALDO_CLIENTE''] @ drop pos sin)
                else cs);
          presentes = filter (\<lambda>c. c \<in> set c1) COLS_TRAZABILIDAD;
          c2 = filter (\<lambda>c. c \<notin> set presentes) c1 @ presentes;
          poner = (\<lambda>ref z a c.
                     insertar_columna_despues
                       (insertar_columna_despues (removeAll a (removeAll z c)) ref z) z a)
      in poner ''DELTA_MORA'' ''ZSCORE_DELTA_MORA'' ''ATIPICO_DELTA_MORA''
           (poner ''DELTA_RECAUDO'' ''ZSCORE_DELTA_RECAUDO'' ''ATIPICO_DELTA_RECAUDO''
              (poner ''IMPORTE'' ''ZSCORE_IMPORTE'' ''ATIPICO_IMPORTE'' c2)))"

text \<open>
  \<open>reporte_cxc._agregar_zscores\<close>, one function for each of its three blocks, each
  giving the two new cells of a row. The z-score of \<open>IMPORTE\<close> is taken over the charge
  rows, the two others over the rows where the delta is present. The stored z-score is
  rounded to four decimals, the flag compares the unrounded one. A row outside a
  computation, and every row when the computation is not made, has no z-score and no
  flag.
\<close>

definition zscores_importe ::
  "estadistica \<Rightarrow> real \<Rightarrow> string list \<Rightarrow> real fila list \<Rightarrow> real fila \<Rightarrow> real fila" where
  "zscores_importe est umbral cs fs r =
     (let importes = map IMPORTE (filter (\<lambda>r. TIPO_IMPTE r = ''C'') fs)
      in if ''IMPORTE'' \<in> set cs \<and> ''TIPO_IMPTE'' \<in> set cs
            \<and> 3 \<le> length importes \<and> 0 < desv est importes \<and> TIPO_IMPTE r = ''C''
         then r\<lparr>ZSCORE_IMPORTE := Some (round_dec 4 (zscore est importes (IMPORTE r))),
                ATIPICO_IMPORTE := Some (umbral \<le> zscore est importes (IMPORTE r))\<rparr>
         else r\<lparr>ZSCORE_IMPORTE := None, ATIPICO_IMPORTE := None\<rparr>)"

definition zscores_delta_recaudo ::
  "estadistica \<Rightarrow> real \<Rightarrow> string list \<Rightarrow> real fila list \<Rightarrow> real fila \<Rightarrow> real fila" where
  "zscores_delta_recaudo est umbral cs fs r =
     (let vals_recaudo = List.map_filter DELTA_RECAUDO fs
      in case (if ''DELTA_RECAUDO'' \<in> set cs \<and> 3 \<le> length vals_recaudo \<and> 0 < desv est vals_recaudo
               then DELTA_RECAUDO r else None) of
           Some d \<Rightarrow> r\<lparr>ZSCORE_DELTA_RECAUDO := Some (round_dec 4 (zscore est vals_recaudo d)),
                        ATIPICO_DELTA_RECAUDO := Some (umbral \<le> zscore est vals_recaudo d)\<rparr>
         | None \<Rightarrow> r\<lparr>ZSCORE_DELTA_RECAUDO := None, ATIPICO_DELTA_RECAUDO := None\<rparr>)"

definition zscores_delta_mora ::
  "estadistica \<Rightarrow> real \<Rightarrow> string list \<Rightarrow> real fila list \<Rightarrow> real fila \<Rightarrow> real fila" where
  "zscores_delta_mora est umbral cs fs r =
     (let vals_mora = List.map_filter DELTA_MORA fs
      in case (if ''DELTA_MORA'' \<in> set cs \<and> 3 \<le> length vals_mora \<and> 0 < desv est vals_mora
               then DELTA_MORA r else None) of
           Some d \<Rightarrow> r\<lparr>ZSCORE_DELTA_MORA := Some (round_dec 4 (zscore est vals_mora d)),
                        ATIPICO_DELTA_MORA := Some (umbral \<le> zscore est vals_mora d)\<rparr>
         | None \<Rightarrow> r\<lparr>ZSCORE_DELTA_MORA := None, ATIPICO_DELTA_MORA := None\<rparr>)"

definition agregar_zscores :: "estadistica \<Rightarrow> real \<Rightarrow> real fila df \<Rightarrow> real fila df" where
  "agregar_zscores est umbral df =
     (let cs = columns df; fs = filas df
      in df\<lparr>columns := columnas_zscores cs,
            filas := map (\<lambda>r. zscores_delta_mora est umbral cs fs
                              (zscores_delta_recaudo est umbral cs fs
                                 (zscores_importe est umbral cs fs r))) fs\<rparr>)"

subsection \<open>The report\<close>

definition COLUMNAS_REPORTE :: "string list" where
  "COLUMNAS_REPORTE =
     [''NOMBRE_CLIENTE'', ''MONEDA'', ''CONDICIONES'', ''ESTATUS_CLIENTE'', ''CONCEPTO'',
      ''FOLIO'', ''FECHA_EMISION'', ''FECHA_VENCIMIENTO'', ''DESCRIPCION'', ''TIPO_IMPTE'',
      ''CARGOS'', ''ABONOS'', ''IMPORTE'', ''IMPUESTO'', ''SALDO_FACTURA'', ''SALDO_CLIENTE'',
      ''DELTA_RECAUDO'', ''CATEGORIA_RECAUDO'', ''DELTA_MORA'', ''CATEGORIA_MORA'']"

definition COLUMNAS_POR_ACREDITAR :: "string list" where
  "COLUMNAS_POR_ACREDITAR =
     filter (\<lambda>c. c \<notin> set [''CONDICIONES'', ''FECHA_VENCIMIENTO'', ''CARGOS'', ''IMPUESTO'',
                           ''SALDO_FACTURA'', ''SALDO_CLIENTE'', ''DELTA_RECAUDO'',
                           ''CATEGORIA_RECAUDO'', ''DELTA_MORA'', ''CATEGORIA_MORA''])
       COLUMNAS_REPORTE"

definition COLUMNAS_FACTURAS_ABIERTAS :: "string list" where
  "COLUMNAS_FACTURAS_ABIERTAS =
     [''NOMBRE_CLIENTE'', ''MONEDA'', ''CONDICIONES'', ''ESTATUS_CLIENTE'', ''CONCEPTO'',
      ''FOLIO'', ''FECHA_EMISION'', ''FECHA_VENCIMIENTO'', ''DESCRIPCION'',
      ''CARGOS'', ''ABONOS'', ''IMPORTE'', ''IMPUESTO'', ''SALDO_FACTURA'',
      ''DELTA_MORA'', ''CATEGORIA_MORA'']"

definition COLUMNAS_FACTURAS_CERRADAS :: "string list" where
  "COLUMNAS_FACTURAS_CERRADAS =
     [''NOMBRE_CLIENTE'', ''MONEDA'', ''CONDICIONES'', ''ESTATUS_CLIENTE'', ''CONCEPTO'',
      ''FOLIO'', ''FECHA_EMISION'', ''FECHA_VENCIMIENTO'', ''DESCRIPCION'',
      ''CARGOS'', ''ABONOS'', ''IMPORTE'', ''IMPUESTO'', ''SALDO_FACTURA'',
      ''DELTA_RECAUDO'', ''CATEGORIA_RECAUDO'']"

text \<open>\<open>reporte_cxc._seleccionar_columnas\<close>.\<close>

definition seleccionar_columnas :: "'r df \<Rightarrow> string list \<Rightarrow> 'r df" where
  "seleccionar_columnas df columnas = df\<lparr>columns := filter (\<lambda>c. c \<in> set (columns df)) columnas\<rparr>"

text \<open>\<open>reporte_cxc._obtener_por_acreditar\<close>: the unapplied advances that are not
  cancelled. The total that is logged reads \<open>IMPORTE\<close> and \<open>IMPUESTO\<close> without a test.\<close>

definition obtener_por_acreditar :: "real fila df \<Rightarrow> error + real fila df" where
  "obtener_por_acreditar df =
     (if ''TIPO_IMPTE'' \<notin> set (columns df) then Inr DataFrame_vacio
      else
        let a = filter (\<lambda>r. TIPO_IMPTE r = ''A'') (filas df);
            df_a = (if ''CANCELADO'' \<in> set (columns df)
                    then filter (\<lambda>r. \<not> isin_CANCELADO_VALUES (CANCELADO r)) a else a)
        in if df_a = [] then Inr DataFrame_vacio
           else if \<not> set [''IMPORTE'', ''IMPUESTO''] \<subseteq> set (columns df) then Inl KeyError
           else Inr (df\<lparr>filas := df_a\<rparr>))"

record reporte =
  reporte_cxc :: "real fila df"
  por_acreditar :: "real fila df"
  movimientos_abiertos_cxc :: "real fila df"
  movimientos_cerrados_cxc :: "real fila df"
  movimientos_totales_cxc :: "real fila df"

text \<open>\<open>_seleccionar_columnas\<close> followed by the copy of \<open>_BAND_GROUP\<close> when the view has it.\<close>

definition vista :: "real fila df \<Rightarrow> string list \<Rightarrow> real fila df" where
  "vista raw columnas =
     (let v = seleccionar_columnas raw columnas
      in if ''_BAND_GROUP'' \<in> set (columns raw)
         then v\<lparr>columns := con_columna ''_BAND_GROUP'' (columns v)\<rparr> else v)"

text \<open>
  \<open>reporte_cxc.generar_reporte_cxc\<close> on a frame that \<open>_preparar\<close> has normalised, with
  today's date as a parameter. The first step that raises ends the run.
\<close>

definition generar_reporte_cxc :: "estadistica \<Rightarrow> int \<Rightarrow> real fila df \<Rightarrow> error + reporte" where
  "generar_reporte_cxc est hoy df =
     (case obtener_por_acreditar df of Inl e \<Rightarrow> Inl e | Inr acreditar \<Rightarrow>
      case calcular_saldo_factura (filtrar_movimientos df) of Inl e \<Rightarrow> Inl e | Inr d1 \<Rightarrow>
      case calcular_metricas_ciclo hoy d1 of Inl e \<Rightarrow> Inl e | Inr d2 \<Rightarrow>
      case calcular_saldo_cliente d2 of Inl e \<Rightarrow> Inl e | Inr df_filtrado \<Rightarrow>
        let facturas_abiertas_raw = extraer_facturas_abiertas df_filtrado;
            facturas_cerradas_raw = extraer_facturas_cerradas df_filtrado;
            con_bandas = agregar_bandas_grupo df_filtrado
        in Inr \<lparr>reporte_cxc = vista con_bandas COLUMNAS_REPORTE,
                por_acreditar = seleccionar_columnas acreditar COLUMNAS_POR_ACREDITAR,
                movimientos_abiertos_cxc = vista facturas_abiertas_raw COLUMNAS_FACTURAS_ABIERTAS,
                movimientos_cerrados_cxc = vista facturas_cerradas_raw COLUMNAS_FACTURAS_CERRADAS,
                movimientos_totales_cxc = agregar_zscores est 3 con_bandas\<rparr>)"

subsection \<open>The auditor\<close>

text \<open>
  The thresholds come from a dictionary, \<open>self.config.get(key, 3.0)\<close>. The text of
  \<open>MOTIVO\<close> is kept without the formatted threshold that the source appends to it.
\<close>

definition umbral_de :: "(string \<rightharpoonup> real) \<Rightarrow> string \<Rightarrow> real" where
  "umbral_de config k = (case config k of None \<Rightarrow> 3 | Some u \<Rightarrow> u)"

text \<open>\<open>Auditor._detectar_importes_atipicos\<close>, on a frame whose \<open>IMPORTE\<close> may be missing
  in a row. A row without \<open>IMPORTE\<close> has no z-score and is not selected.\<close>

definition detectar_importes_atipicos ::
  "estadistica \<Rightarrow> (string \<rightharpoonup> real) \<Rightarrow> real option fila df \<Rightarrow> real option fila df" where
  "detectar_importes_atipicos est config df =
     (let umbral = umbral_de config ''importe_zscore_umbral'';
          ventas = filter (\<lambda>r. TIPO_IMPTE r = ''C'') (filas df);
          importes = List.map_filter IMPORTE ventas
      in if ''IMPORTE'' \<notin> set (columns df) \<or> ''TIPO_IMPTE'' \<notin> set (columns df) then DataFrame_vacio
         else if ventas = [] then DataFrame_vacio
         else if length importes < 3 \<or> desv est importes = 0 then DataFrame_vacio
         else
           let con_z = map (\<lambda>r. r\<lparr>ZSCORE_IMPORTE := map_option (zscore est importes) (IMPORTE r)\<rparr>) ventas;
               atipicos = filter (\<lambda>r. case ZSCORE_IMPORTE r of None \<Rightarrow> False | Some z \<Rightarrow> umbral \<le> z) con_z
           in if atipicos = []
              then \<lparr>columns = con_columna ''ZSCORE_IMPORTE'' (columns df), filas = []\<rparr>
              else \<lparr>columns = con_columna ''MOTIVO'' (con_columna ''ZSCORE_IMPORTE'' (columns df)),
                    filas = map (\<lambda>r. r\<lparr>MOTIVO := ''Importe de venta atipico''\<rparr>) atipicos\<rparr>)"

text \<open>The two delta columns that \<open>_detectar_atipicos_delta\<close> is called with, read and
  written by name.\<close>

definition leer_delta :: "string \<Rightarrow> real fila \<Rightarrow> real option" where
  "leer_delta columna r =
     (if columna = ''DELTA_RECAUDO'' then DELTA_RECAUDO r
      else if columna = ''DELTA_MORA'' then DELTA_MORA r else None)"

definition escribir_zscore :: "string \<Rightarrow> real option \<Rightarrow> real fila \<Rightarrow> real fila" where
  "escribir_zscore columna z r =
     (if columna = ''DELTA_RECAUDO'' then r\<lparr>ZSCORE_DELTA_RECAUDO := z\<rparr>
      else if columna = ''DELTA_MORA'' then r\<lparr>ZSCORE_DELTA_MORA := z\<rparr> else r)"

definition leer_zscore :: "string \<Rightarrow> real fila \<Rightarrow> real option" where
  "leer_zscore columna r =
     (if columna = ''DELTA_RECAUDO'' then ZSCORE_DELTA_RECAUDO r
      else if columna = ''DELTA_MORA'' then ZSCORE_DELTA_MORA r else None)"

text \<open>\<open>Auditor._detectar_atipicos_delta\<close>, on the report frame.\<close>

definition detectar_atipicos_delta ::
  "estadistica \<Rightarrow> (string \<rightharpoonup> real) \<Rightarrow> real fila df \<Rightarrow> string \<Rightarrow> string \<Rightarrow> real fila df" where
  "detectar_atipicos_delta est config df_reporte columna umbral_key =
     (let umbral = umbral_de config umbral_key;
          cargos = (if ''TIPO_IMPTE'' \<in> set (columns df_reporte)
                    then filter (\<lambda>r. TIPO_IMPTE r = ''C'') (filas df_reporte)
                    else filas df_reporte);
          valores = List.map_filter (leer_delta columna) cargos
      in if columna \<notin> set (columns df_reporte) then DataFrame_vacio
         else if length valores < 3 \<or> desv est valores = 0 then DataFrame_vacio
         else
           let zscore_col = ''ZSCORE_'' @ columna;
               con_z = map (\<lambda>r. escribir_zscore columna
                                    (map_option (zscore est valores) (leer_delta columna r)) r) cargos;
               atipicos = filter (\<lambda>r. case leer_zscore columna r of None \<Rightarrow> False
                                        | Some z \<Rightarrow> umbral \<le> z) con_z
           in if atipicos = []
              then \<lparr>columns = con_columna zscore_col (columns df_reporte), filas = []\<rparr>
              else \<lparr>columns = con_columna ''MOTIVO''
                                (removeAll ''_BAND_GROUP'' (con_columna zscore_col (columns df_reporte))),
                    filas = map (\<lambda>r. r\<lparr>MOTIVO := ''Valor atipico en '' @ columna\<rparr>) atipicos\<rparr>)"

text \<open>\<open>Auditor._detectar_sin_tipo_cliente\<close> and \<open>Auditor._detectar_sin_vendedor\<close>.\<close>

definition detectar_sin_tipo_cliente :: "'n fila df \<Rightarrow> 'n fila df" where
  "detectar_sin_tipo_cliente df =
     (if ''TIPO_CLIENTE'' \<notin> set (columns df) then DataFrame_vacio
      else
        let sin_tipo = filter (\<lambda>r. TIPO_CLIENTE r = None) (filas df)
        in if sin_tipo = [] then df\<lparr>filas := []\<rparr>
           else \<lparr>columns = con_columna ''MOTIVO'' (columns df),
                 filas = map (\<lambda>r. r\<lparr>MOTIVO := ''Cliente sin tipo asignado en el sistema''\<rparr>) sin_tipo\<rparr>)"

definition detectar_sin_vendedor :: "'n fila df \<Rightarrow> 'n fila df" where
  "detectar_sin_vendedor df =
     (if ''VENDEDOR'' \<notin> set (columns df) then DataFrame_vacio
      else
        let sin_vendedor = filter (\<lambda>r. VENDEDOR r = None) (filas df)
        in if sin_vendedor = [] then df\<lparr>filas := []\<rparr>
           else \<lparr>columns = con_columna ''MOTIVO'' (columns df),
                 filas = map (\<lambda>r. r\<lparr>MOTIVO := ''Venta sin vendedor asignado''\<rparr>) sin_vendedor\<rparr>)"

text \<open>\<open>Auditor._analizar_cancelados\<close>: \<open>.dt.days\<close> of the difference of the two
  timestamps, which are day numbers here.\<close>

definition analizar_cancelados :: "'n fila df \<Rightarrow> 'n fila df" where
  "analizar_cancelados df =
     (if ''CANCELADO'' \<notin> set (columns df) then DataFrame_vacio
      else
        let cancelados = filter (\<lambda>r. isin_CANCELADO_VALUES (CANCELADO r)) (filas df)
        in if cancelados = [] then df\<lparr>filas := []\<rparr>
           else if ''FECHA_HORA_CREACION'' \<in> set (columns df) \<and> ''FECHA_HORA_CANCELACION'' \<in> set (columns df)
           then \<lparr>columns = con_columna ''DIAS_HASTA_CANCELACION'' (con_columna ''MOTIVO'' (columns df)),
                 filas = map (\<lambda>r. r\<lparr>MOTIVO := ''Documento cancelado'',
                                      DIAS_HASTA_CANCELACION :=
                                        (case (FECHA_HORA_CANCELACION r, FECHA_HORA_CREACION r) of
                                           (Some b, Some a) \<Rightarrow> Some (b - a) | _ \<Rightarrow> None)\<rparr>) cancelados\<rparr>
           else \<lparr>columns = con_columna ''MOTIVO'' (columns df),
                 filas = map (\<lambda>r. r\<lparr>MOTIVO := ''Documento cancelado''\<rparr>) cancelados\<rparr>)"

text \<open>
  \<open>AuditResult\<close>. The per-column completeness report \<open>calidad_datos\<close> is not part of
  the model; it does not enter \<open>resumen\<close>.
\<close>

record AuditResult =
  resumen :: "(string \<times> nat) list"
  importes_atipicos :: "real option fila df"
  recaudos_atipicos :: "real fila df"
  moras_atipicas :: "real fila df"
  sin_tipo_cliente :: "real option fila df"
  sin_vendedor :: "real option fila df"
  documentos_cancelados :: "real option fila df"

text \<open>\<open>Auditor._generar_resumen\<close>: the dictionary in the order of its keys, without the
  time stamp \<open>fecha_auditoria\<close>.\<close>

definition generar_resumen :: "real option fila df \<Rightarrow> AuditResult \<Rightarrow> (string \<times> nat) list" where
  "generar_resumen df result =
     (let n1 = length (filas (importes_atipicos result));
          n2 = length (filas (recaudos_atipicos result));
          n3 = length (filas (moras_atipicas result));
          n4 = length (filas (sin_tipo_cliente result));
          n5 = length (filas (sin_vendedor result));
          n6 = length (filas (documentos_cancelados result))
      in [(''total_registros'', length (filas df)),
          (''importes_atipicos'', n1), (''recaudos_atipicos'', n2), (''moras_atipicas'', n3),
          (''sin_tipo_cliente'', n4), (''sin_vendedor'', n5), (''cancelados'', n6),
          (''total_hallazgos'', sum_list [n1, n2, n3, n4, n5, n6])])"

text \<open>\<open>Auditor.run_audit\<close> on the frame that \<open>_preparar_datos\<close> has normalised; the
  report frame is optional, and an empty frame has no rows or no columns.\<close>

definition run_audit ::
  "estadistica \<Rightarrow> (string \<rightharpoonup> real) \<Rightarrow> real option fila df \<Rightarrow> real fila df option \<Rightarrow> AuditResult" where
  "run_audit est config df df_reporte =
     (let con_reporte = (case df_reporte of None \<Rightarrow> None
                         | Some d \<Rightarrow> if filas d = [] \<or> columns d = [] then None else Some d);
          result = \<lparr>resumen = [],
                    importes_atipicos = detectar_importes_atipicos est config df,
                    recaudos_atipicos =
                      (case con_reporte of None \<Rightarrow> DataFrame_vacio
                       | Some d \<Rightarrow> detectar_atipicos_delta est config d ''DELTA_RECAUDO''
                                     ''delta_recaudo_zscore_umbral''),
                    moras_atipicas =
                      (case con_reporte of None \<Rightarrow> DataFrame_vacio
                       | Some d \<Rightarrow> detectar_atipicos_delta est config d ''DELTA_MORA''
                                     ''delta_mora_zscore_umbral''),
                    sin_tipo_cliente = detectar_sin_tipo_cliente df,
                    sin_vendedor = detectar_sin_vendedor df,
                    documentos_cancelados = analizar_cancelados df\<rparr>
      in result\<lparr>resumen := generar_resumen df result\<rparr>)"

subsection \<open>KPIs\<close>

text \<open>\<open>(df["FECHA_EMISION"] >= inicio_periodo) & (df["FECHA_EMISION"] <= hoy)\<close>; a
  missing date is in no window.\<close>

definition en_periodo :: "int \<Rightarrow> int \<Rightarrow> real fila \<Rightarrow> bool" where
  "en_periodo inicio_periodo hoy r =
     (case FECHA_EMISION r of None \<Rightarrow> False | Some d \<Rightarrow> inicio_periodo \<le> d \<and> d \<le> hoy)"

text \<open>A KPI record; the interpretation text, a formatted sentence, is left out, and the
  accents of the two names that have one are dropped.\<close>

record kpi =
  KPI :: string
  VALOR :: real
  UNIDAD :: string

text \<open>\<open>kpis._calcular_dso\<close>.\<close>

definition calcular_dso :: "real fila df \<Rightarrow> real fila df \<Rightarrow> int \<Rightarrow> int \<Rightarrow> int \<Rightarrow> error + kpi" where
  "calcular_dso df saldos hoy inicio_periodo dias_periodo =
     (if \<not> set [''TIPO_IMPTE'', ''FECHA_EMISION'', ''IMPORTE'', ''IMPUESTO''] \<subseteq> set (columns df)
         \<or> ''SALDO'' \<notin> set (columns saldos)
      then Inl KeyError
      else
        let saldo_total = sum_list (map SALDO (filas saldos));
            ventas_periodo = sum_list (map monto
                               (filter (\<lambda>r. TIPO_IMPTE r = ''C'' \<and> en_periodo inicio_periodo hoy r) (filas df)));
            dso = (if 0 < ventas_periodo then (saldo_total / ventas_periodo) * real_of_int dias_periodo else 0)
        in Inr \<lparr>KPI = ''DSO (Days Sales Outstanding)'', VALOR = round_dec 1 dso, UNIDAD = ''dias''\<rparr>)"

text \<open>
  \<open>kpis._calcular_cei\<close> compares with zero a quantity in which, over the reals, a term
  is first subtracted and then added back. In the program's binary floating point the
  two roundings do not undo each other, and the outcome of the test can change, so this
  function is modelled with the rounding of each operation.

  \<open>doble x\<close> is the double nearest to \<open>x\<close>, ties to the even mantissa: 53 significant
  bits. The exponent is not bounded: overflow and subnormal numbers, far from the
  amounts of a ledger, are left out. The cells of a frame are doubles already.
\<close>

definition doble :: "real \<Rightarrow> real" where
  "doble x =
     (if x = 0 then 0
      else let e = \<lfloor>log 2 \<bar>x\<bar>\<rfloor>
           in real_of_int (rint (x / 2 powr (real_of_int e - 52))) * 2 powr (real_of_int e - 52))"

text \<open>
  \<open>Series.sum()\<close> adds doubles in an order that depends on the length of the series
  and on the installed libraries, so the functions take it as a parameter \<open>suma\<close>.
  \<open>suma_doble\<close> adds from left to right, which is what numpy does for fewer than
  eight values.
\<close>

definition suma_doble :: "real list \<Rightarrow> real" where
  "suma_doble xs = foldl (\<lambda>a x. doble (a + x)) 0 xs"

text \<open>The column \<open>_MONTO = IMPORTE + IMPUESTO\<close> in doubles.\<close>

definition monto_doble :: "real fila \<Rightarrow> real" where
  "monto_doble r = doble (IMPORTE r + IMPUESTO r)"

text \<open>The local quantities of \<open>kpis._calcular_cei\<close>, each under its name in the source.\<close>

definition cargos_periodo :: "(real list \<Rightarrow> real) \<Rightarrow> real fila df \<Rightarrow> int \<Rightarrow> int \<Rightarrow> real" where
  "cargos_periodo suma df hoy inicio_periodo =
     suma (map monto_doble (filter (\<lambda>r. TIPO_IMPTE r = ''C'' \<and> en_periodo inicio_periodo hoy r) (filas df)))"

definition cobros_periodo :: "(real list \<Rightarrow> real) \<Rightarrow> real fila df \<Rightarrow> int \<Rightarrow> int \<Rightarrow> real" where
  "cobros_periodo suma df hoy inicio_periodo =
     suma (map monto_doble (filter (\<lambda>r. TIPO_IMPTE r = ''R'' \<and> en_periodo inicio_periodo hoy r) (filas df)))"

definition saldo_actual :: "(real list \<Rightarrow> real) \<Rightarrow> real fila df \<Rightarrow> real" where
  "saldo_actual suma df =
     doble (suma (map monto_doble (filter (\<lambda>r. TIPO_IMPTE r = ''C'') (filas df)))
              - suma (map monto_doble (filter (\<lambda>r. TIPO_IMPTE r = ''R'') (filas df))))"

definition saldo_inicio :: "(real list \<Rightarrow> real) \<Rightarrow> real fila df \<Rightarrow> int \<Rightarrow> int \<Rightarrow> real" where
  "saldo_inicio suma df hoy inicio_periodo =
     doble (doble (saldo_actual suma df - cargos_periodo suma df hoy inicio_periodo)
              + cobros_periodo suma df hoy inicio_periodo)"

definition cobrable :: "(real list \<Rightarrow> real) \<Rightarrow> real fila df \<Rightarrow> int \<Rightarrow> int \<Rightarrow> real" where
  "cobrable suma df hoy inicio_periodo =
     doble (saldo_inicio suma df hoy inicio_periodo + cargos_periodo suma df hoy inicio_periodo)"

text \<open>\<open>kpis._calcular_cei\<close>. \<open>round(cei, 1)\<close> is the double nearest to the value rounded
  to one decimal.\<close>

definition calcular_cei :: "(real list \<Rightarrow> real) \<Rightarrow> real fila df \<Rightarrow> int \<Rightarrow> int \<Rightarrow> error + kpi" where
  "calcular_cei suma df hoy inicio_periodo =
     (if \<not> set [''IMPORTE'', ''IMPUESTO'', ''TIPO_IMPTE'', ''FECHA_EMISION''] \<subseteq> set (columns df)
      then Inl KeyError
      else
        let cei = (if 0 < cobrable suma df hoy inicio_periodo
                   then doble (doble (cobros_periodo suma df hoy inicio_periodo
                                        / cobrable suma df hoy inicio_periodo) * 100)
                   else 100)
        in Inr \<lparr>KPI = ''CEI (Collection Effectiveness Index)'', VALOR = doble (round_dec 1 cei),
                  UNIDAD = ''%''\<rparr>)"

text \<open>\<open>kpis._calcular_morosidad\<close>.\<close>

definition calcular_morosidad :: "real fila df \<Rightarrow> int \<Rightarrow> error + kpi" where
  "calcular_morosidad saldos hoy =
     (if ''SALDO'' \<notin> set (columns saldos) then Inl KeyError
      else
        let cartera_total = sum_list (map SALDO (filas saldos));
            cartera_vencida =
              (if ''FECHA_VENCIMIENTO'' \<in> set (columns saldos)
               then sum_list (map SALDO (filter (\<lambda>r. case FECHA_VENCIMIENTO r of None \<Rightarrow> False
                                                        | Some v \<Rightarrow> v < hoy) (filas saldos)))
               else 0);
            indice = (if 0 < cartera_total then (cartera_vencida / cartera_total) * 100 else 0)
        in Inr \<lparr>KPI = ''Indice de Morosidad'', VALOR = round_dec 1 indice, UNIDAD = ''%''\<rparr>)"

text \<open>
  \<open>kpis._calcular_concentracion\<close>. \<open>groupby("NOMBRE_CLIENTE")["SALDO"].sum().round(2)\<close>
  has one row per client, by name; \<open>sort_values("SALDO", ascending=False)\<close> is
  modelled by the stable sort on the negated balance. \<open>cumsum\<close> is the running sum.
\<close>

record concentracion =
  cliente :: string
  saldo :: real
  PCT_DEL_TOTAL :: real
  PCT_ACUMULADO :: real
  CLASIFICACION :: string

fun cumsum :: "real \<Rightarrow> real list \<Rightarrow> real list" where
  "cumsum acc [] = []"
| "cumsum acc (x # xs) = (acc + x) # cumsum (acc + x) xs"

definition por_cliente :: "real fila list \<Rightarrow> (string \<times> real) list" where
  "por_cliente fs =
     sort_key (\<lambda>p. - snd p)
       (map (\<lambda>c. (c, round_dec 2 (sum_list (map SALDO (filter (\<lambda>r. NOMBRE_CLIENTE r = Some c) fs)))))
            (sort (remdups (List.map_filter NOMBRE_CLIENTE fs))))"

definition calcular_concentracion :: "real fila df \<Rightarrow> error + concentracion list" where
  "calcular_concentracion saldos =
     (if ''NOMBRE_CLIENTE'' \<notin> set (columns saldos) then Inr []
      else if ''SALDO'' \<notin> set (columns saldos) then Inl KeyError
      else
        let pc = por_cliente (filas saldos);
            total = sum_list (map snd pc)
        in if total \<le> 0 then Inr []
           else
             let pct = map (\<lambda>p. round_dec 2 (snd p / total * 100)) pc;
                 acum = map (round_dec 2) (cumsum 0 pct)
             in Inr (map (\<lambda>(p, q, a).
                        \<lparr>cliente = fst p, saldo = snd p, PCT_DEL_TOTAL = q, PCT_ACUMULADO = a,
                         CLASIFICACION = (if a \<le> 80 then ''A'' else if a \<le> 95 then ''B'' else ''C'')\<rparr>)
                      (zip pc (zip pct acum))))"

text \<open>
  \<open>kpis.generar_kpis\<close> on a normalised frame, with today's date and the summation of
  \<open>_calcular_cei\<close> as parameters. The credit-limit table and the per-client delinquency
  table are not part of the model.
\<close>

record kpis =
  kpis_resumen :: "kpi list"
  kpis_concentracion :: "concentracion list"

definition generar_kpis :: "(real list \<Rightarrow> real) \<Rightarrow> int \<Rightarrow> real fila df \<Rightarrow> int \<Rightarrow> error + kpis" where
  "generar_kpis suma hoy df dias_periodo =
     (let inicio_periodo = hoy - dias_periodo;
          df_activo = filtrar_activos df
      in case saldos_por_factura df_activo of Inl e \<Rightarrow> Inl e | Inr saldos \<Rightarrow>
         case calcular_dso df_activo saldos hoy inicio_periodo dias_periodo of Inl e \<Rightarrow> Inl e | Inr dso \<Rightarrow>
         case calcular_cei suma df_activo hoy inicio_periodo of Inl e \<Rightarrow> Inl e | Inr cei \<Rightarrow>
         case calcular_morosidad saldos hoy of Inl e \<Rightarrow> Inl e | Inr morosidad \<Rightarrow>
         case calcular_concentracion saldos of Inl e \<Rightarrow> Inl e | Inr conc \<Rightarrow>
           Inr \<lparr>kpis_resumen = [dso, cei, morosidad], kpis_concentracion = conc\<rparr>)"

text \<open>A row with every cell missing or zero, from which examples are written.\<close>

definition fila_nula :: "real fila" where
  "fila_nula =
     \<lparr>DOCTO_CC_ID = None, DOCTO_CC_ACR_ID = None, TIPO_IMPTE = '''', NOMBRE_CLIENTE = None,
      FECHA_EMISION = None, FECHA_VENCIMIENTO = None, IMPORTE = 0, IMPUESTO = 0,
      CANCELADO = Nulo, TIPO_CLIENTE = None, VENDEDOR = None,
      FECHA_HORA_CREACION = None, FECHA_HORA_CANCELACION = None,
      SALDO_FACTURA = None, DELTA_RECAUDO = None, CATEGORIA_RECAUDO = '''',
      DELTA_MORA = None, CATEGORIA_MORA = '''', SALDO_CLIENTE = None, BAND_GROUP = 0,
      ZSCORE_IMPORTE = None, ATIPICO_IMPORTE = None,
      ZSCORE_DELTA_RECAUDO = None, ATIPICO_DELTA_RECAUDO = None,
      ZSCORE_DELTA_MORA = None, ATIPICO_DELTA_MORA = None,
      MONTO_CARGO = 0, MONTO_ABONOS = 0, SALDO = 0, MOTIVO = '''',
      DIAS_HASTA_CANCELACION = None\<rparr>"

definition fila_cruda_nula :: "real option fila" where
  "fila_cruda_nula =
     \<lparr>DOCTO_CC_ID = None, DOCTO_CC_ACR_ID = None, TIPO_IMPTE = '''', NOMBRE_CLIENTE = None,
      FECHA_EMISION = None, FECHA_VENCIMIENTO = None, IMPORTE = None, IMPUESTO = None,
      CANCELADO = Nulo, TIPO_CLIENTE = None, VENDEDOR = None,
      FECHA_HORA_CREACION = None, FECHA_HORA_CANCELACION = None,
      SALDO_FACTURA = None, DELTA_RECAUDO = None, CATEGORIA_RECAUDO = '''',
      DELTA_MORA = None, CATEGORIA_MORA = '''', SALDO_CLIENTE = None, BAND_GROUP = 0,
      ZSCORE_IMPORTE = None, ATIPICO_IMPORTE = None,
      ZSCORE_DELTA_RECAUDO = None, ATIPICO_DELTA_RECAUDO = None,
      ZSCORE_DELTA_MORA = None, ATIPICO_DELTA_MORA = None,
      MONTO_CARGO = 0, MONTO_ABONOS = 0, SALDO = 0, MOTIVO = '''',
      DIAS_HASTA_CANCELACION = None\<rparr>"

text \<open>
  The payments linked to a charge, as the claims speak of them: the payment rows of the
  frame whose reference id is present and equals the id of the charge. Without one of
  the two id columns no payment is linked to any charge.
\<close>

definition abonos_vinculados :: "real fila df \<Rightarrow> real fila \<Rightarrow> real fila list" where
  "abonos_vinculados df c =
     filter (\<lambda>p. TIPO_IMPTE p = ''R''
                \<and> ''DOCTO_CC_ACR_ID'' \<in> set (columns df) \<and> ''DOCTO_CC_ID'' \<in> set (columns df)
                \<and> DOCTO_CC_ACR_ID p \<noteq> None \<and> DOCTO_CC_ACR_ID p = DOCTO_CC_ID c)
       (filas df)"

text \<open>The balance of a charge as the specification words it: the amount of the charge
  minus the sum of the amounts of the payments linked to it, rounded to two decimals.\<close>

definition saldo_neto :: "real fila df \<Rightarrow> real fila \<Rightarrow> real" where
  "saldo_neto df c = round_dec 2 (monto c - sum_list (map monto (abonos_vinculados df c)))"

text \<open>A series on which the detector does not compute: fewer than three values, or a
  standard deviation, as the program computes it, of zero.\<close>

definition no_evaluable :: "estadistica \<Rightarrow> real list \<Rightarrow> bool" where
  "no_evaluable est serie = (length serie < 3 \<or> desv est serie = 0)"

text \<open>The z-score written out: the distance to the mean over the sample standard
  deviation, the one with \<open>n - 1\<close> under the sum of squares.\<close>

definition z_muestral :: "real list \<Rightarrow> real \<Rightarrow> real" where
  "z_muestral serie v =
     \<bar>v - sum_list serie / real (length serie)\<bar>
       / sqrt (sum_list (map (\<lambda>x. (x - sum_list serie / real (length serie))\<^sup>2) serie)
                / (real (length serie) - 1))"

text \<open>The population standard deviation, with \<open>n\<close> under the sum of squares.\<close>

definition std_poblacional :: "real list \<Rightarrow> real" where
  "std_poblacional serie =
     sqrt (sum_list (map (\<lambda>x. (x - mean serie)\<^sup>2) serie) / real (length serie))"

subsection \<open>An example ledger\<close>

text \<open>
  One client with a charge of 1000 + 160 tax, a payment of 500 that references it, a
  cancelled payment of 100 that references it too, and an unapplied advance of 50.
\<close>

definition ej_cargo :: "real fila" where
  "ej_cargo = fila_nula\<lparr>DOCTO_CC_ID := Some 1, TIPO_IMPTE := ''C'', NOMBRE_CLIENTE := Some ''ACME'',
                         FECHA_EMISION := Some 10, FECHA_VENCIMIENTO := Some 40,
                         IMPORTE := 1000, IMPUESTO := 160\<rparr>"

definition ej_abono :: "real fila" where
  "ej_abono = fila_nula\<lparr>DOCTO_CC_ID := Some 2, DOCTO_CC_ACR_ID := Some 1, TIPO_IMPTE := ''R'',
                         NOMBRE_CLIENTE := Some ''ACME'', FECHA_EMISION := Some 20, IMPORTE := 500\<rparr>"

definition ej_cancelado :: "real fila" where
  "ej_cancelado = fila_nula\<lparr>DOCTO_CC_ID := Some 3, DOCTO_CC_ACR_ID := Some 1, TIPO_IMPTE := ''R'',
                             NOMBRE_CLIENTE := Some ''ACME'', FECHA_EMISION := Some 25, IMPORTE := 100,
                             CANCELADO := Texto ''S''\<rparr>"

definition ej_anticipo :: "real fila" where
  "ej_anticipo = fila_nula\<lparr>DOCTO_CC_ID := Some 4, TIPO_IMPTE := ''A'', NOMBRE_CLIENTE := Some ''ACME'',
                            FECHA_EMISION := Some 30, IMPORTE := 50\<rparr>"

definition ej_columnas :: "string list" where
  "ej_columnas = [''DOCTO_CC_ID'', ''DOCTO_CC_ACR_ID'', ''TIPO_IMPTE'', ''NOMBRE_CLIENTE'',
                  ''FECHA_EMISION'', ''FECHA_VENCIMIENTO'', ''IMPORTE'', ''IMPUESTO'', ''CANCELADO'']"

definition ej_df :: "real fila df" where
  "ej_df = \<lparr>columns = ej_columnas, filas = [ej_cargo, ej_abono, ej_cancelado, ej_anticipo]\<rparr>"

text \<open>Frames of charges only, given by id, principal and tax; the second kind is the
  frame as the auditor normalises it.\<close>

definition ej_cargo_de :: "int \<Rightarrow> real \<Rightarrow> real \<Rightarrow> real fila" where
  "ej_cargo_de k imp tax =
     fila_nula\<lparr>DOCTO_CC_ID := Some k, TIPO_IMPTE := ''C'', NOMBRE_CLIENTE := Some ''ACME'',
               IMPORTE := imp, IMPUESTO := tax\<rparr>"

definition ej_crudo_de :: "int \<Rightarrow> real \<Rightarrow> real option fila" where
  "ej_crudo_de k imp =
     fila_cruda_nula\<lparr>DOCTO_CC_ID := Some k, TIPO_IMPTE := ''C'', NOMBRE_CLIENTE := Some ''ACME'',
                     IMPORTE := Some imp, IMPUESTO := Some 0\<rparr>"

definition ej_iguales :: "real fila df" where
  "ej_iguales = \<lparr>columns = ej_columnas,
                  filas = [ej_cargo_de 1 100 0, ej_cargo_de 2 100 0, ej_cargo_de 3 100 0]\<rparr>"


definition ej_crudo_135 :: "real option fila df" where
  "ej_crudo_135 = \<lparr>columns = ej_columnas,
                    filas = [ej_crudo_de 1 1, ej_crudo_de 2 3, ej_crudo_de 3 5]\<rparr>"

definition ej_config :: "string \<rightharpoonup> real" where
  "ej_config = [''importe_zscore_umbral'' \<mapsto> 1]"

text \<open>
  Moving part of the principal of a row into its tax: \<open>IMPORTE\<close> grows by an amount
  that depends on the document id, \<open>IMPUESTO\<close> shrinks by the same amount, and the sum
  stays. \<open>con_impuesto\<close> replaces the tax of every row by an arbitrary value.
\<close>

definition mover :: "(int option \<Rightarrow> real) \<Rightarrow> real fila \<Rightarrow> real fila" where
  "mover \<delta> r = r\<lparr>IMPORTE := IMPORTE r + \<delta> (DOCTO_CC_ID r), IMPUESTO := IMPUESTO r - \<delta> (DOCTO_CC_ID r)\<rparr>"

definition trasladar :: "(int option \<Rightarrow> real) \<Rightarrow> real fila df \<Rightarrow> real fila df" where
  "trasladar \<delta> df = df\<lparr>filas := map (mover \<delta>) (filas df)\<rparr>"

definition con_impuesto :: "(int option \<Rightarrow> 'n) \<Rightarrow> 'n fila df \<Rightarrow> 'n fila df" where
  "con_impuesto g df = df\<lparr>filas := map (\<lambda>r. r\<lparr>IMPUESTO := g (DOCTO_CC_ID r)\<rparr>) (filas df)\<rparr>"

text \<open>Three charges with the principals 1, 3, 5 and the taxes 4, 2, 0: the amounts
  are all 5.\<close>

definition ej_impuestos :: "real fila df" where
  "ej_impuestos = \<lparr>columns = ej_columnas,
                    filas = [ej_cargo_de 1 1 4, ej_cargo_de 2 3 2, ej_cargo_de 3 5 0]\<rparr>"

text \<open>
  A report frame of five charges of 100: three are closed, each collected five days
  late, and two are open, 10 and 200 days overdue.
\<close>

definition ej_cerrada :: "int \<Rightarrow> real fila" where
  "ej_cerrada k = (ej_cargo_de k 100 0)\<lparr>SALDO_FACTURA := Some 0, DELTA_RECAUDO := Some 5\<rparr>"

definition ej_abierta :: "int \<Rightarrow> real \<Rightarrow> real fila" where
  "ej_abierta k d = (ej_cargo_de k 100 0)\<lparr>SALDO_FACTURA := Some 100, DELTA_MORA := Some d\<rparr>"



text \<open>
  \<open>decimo\<close> is the double nearest to 0.1. Statistics as a program in doubles can return
  them for three charges of 0.1: the mean one unit in the last place above the common
  value, the deviation near \<open>1.7e-17\<close>.
\<close>

definition decimo :: real where
  "decimo = 3602879701896397 / 2 ^ 55"

definition ej_est_redondeo :: estadistica where
  "ej_est_redondeo = \<lparr>media = (\<lambda>_. decimo + 1 / 2 ^ 56), desv = (\<lambda>_. 17 / 10 ^ 18)\<rparr>"

definition ej_decimos :: "real fila df" where
  "ej_decimos =
     \<lparr>columns = ej_columnas,
      filas = [ej_cargo_de 1 decimo 0, ej_cargo_de 2 decimo 0, ej_cargo_de 3 decimo 0]\<rparr>"





text \<open>The frame without the rows that are marked cancelled. A frame without the column
  \<open>CANCELADO\<close> marks no row.\<close>

definition sin_canceladas :: "'n fila df \<Rightarrow> 'n fila df" where
  "sin_canceladas df =
     (if ''CANCELADO'' \<in> set (columns df)
      then df\<lparr>filas := filter (\<lambda>r. \<not> isin_CANCELADO_VALUES (CANCELADO r)) (filas df)\<rparr>
      else df)"

text \<open>A raw frame for the auditor: the charges 1 and 3 with client type and salesperson,
  and a cancelled charge 5 without either.\<close>

definition ej_auditoria :: "real option fila df" where
  "ej_auditoria =
     \<lparr>columns = ej_columnas @ [''TIPO_CLIENTE'', ''VENDEDOR''],
      filas = [(ej_crudo_de 1 1)\<lparr>TIPO_CLIENTE := Some ''CREDITO'', VENDEDOR := Some ''ANA''\<rparr>,
               (ej_crudo_de 2 3)\<lparr>TIPO_CLIENTE := Some ''CREDITO'', VENDEDOR := Some ''ANA''\<rparr>,
               (ej_crudo_de 3 5)\<lparr>CANCELADO := Texto ''S''\<rparr>]\<rparr>"

text \<open>The example ledger of one charge of 1160 and one payment of 500, in a table
  that has no column \<open>DOCTO_CC_ACR_ID\<close>; and the same table as the auditor normalises
  it, with client type and salesperson.\<close>

definition ej_sin_vinculo :: "real fila df" where
  "ej_sin_vinculo = \<lparr>columns = removeAll ''DOCTO_CC_ACR_ID'' ej_columnas,
                      filas = [ej_cargo, ej_abono\<lparr>DOCTO_CC_ACR_ID := None\<rparr>]\<rparr>"

definition ej_sin_vinculo_crudo :: "real option fila df" where
  "ej_sin_vinculo_crudo =
     \<lparr>columns = removeAll ''DOCTO_CC_ACR_ID'' ej_columnas @ [''TIPO_CLIENTE'', ''VENDEDOR''],
      filas = [fila_cruda_nula\<lparr>DOCTO_CC_ID := Some 1, TIPO_IMPTE := ''C'', NOMBRE_CLIENTE := Some ''ACME'',
                   FECHA_EMISION := Some 10, FECHA_VENCIMIENTO := Some 40,
                   IMPORTE := Some 1000, IMPUESTO := Some 160,
                   TIPO_CLIENTE := Some ''CREDITO'', VENDEDOR := Some ''ANA''\<rparr>,
               fila_cruda_nula\<lparr>DOCTO_CC_ID := Some 2, TIPO_IMPTE := ''R'', NOMBRE_CLIENTE := Some ''ACME'',
                   FECHA_EMISION := Some 20, IMPORTE := Some 500, IMPUESTO := Some 0,
                   TIPO_CLIENTE := Some ''CREDITO'', VENDEDOR := Some ''ANA''\<rparr>]\<rparr>"

section \<open>Properties\<close>

lemma abonos_de_vinculados:
  assumes "''DOCTO_CC_ACR_ID'' \<in> set (columns df)" "''DOCTO_CC_ID'' \<in> set (columns df)"
  shows "abonos_de (filas df) c = sum_list (map monto (abonos_vinculados df c))"
proof (cases "DOCTO_CC_ID c")
  case None
  then have "abonos_vinculados df c = []"
    by (auto simp: abonos_vinculados_def filter_empty_conv)
  with None show ?thesis
    by (simp add: abonos_de_def)
next
  case (Some k)
  have "abonos_vinculados df c
          = filter (\<lambda>p. TIPO_IMPTE p = ''R'' \<and> DOCTO_CC_ACR_ID p = Some k) (filas df)"
    unfolding abonos_vinculados_def using assms Some by (intro filter_cong) auto
  with Some show ?thesis
    by (simp add: abonos_de_def abonos_por_cargo_def Let_def)
qed

lemma abonos_de_MONTO_CARGO [simp]:
  "abonos_de fs (r\<lparr>MONTO_CARGO := x\<rparr>) = abonos_de fs r"
  by (simp add: abonos_de_def)

lemma abonos_vinculados_sin_columna:
  assumes "\<not> (''DOCTO_CC_ACR_ID'' \<in> set (columns df) \<and> ''DOCTO_CC_ID'' \<in> set (columns df))"
  shows "abonos_vinculados df c = []"
  using assms by (auto simp: abonos_vinculados_def)

subsection \<open>Rounding\<close>

lemma rint_of_int [simp]: "rint (of_int k) = k"
  by (simp add: rint_def)

lemma rint_err: "\<bar>of_int (rint x) - x\<bar> \<le> 1 / 2"
  unfolding rint_def Let_def by (auto simp: abs_le_iff)

lemma rint_mono: "x \<le> y \<Longrightarrow> rint x \<le> rint y"
proof -
  assume xy: "x \<le> y"
  have fl: "\<lfloor>x\<rfloor> \<le> \<lfloor>y\<rfloor>" using xy by (rule floor_mono)
  show ?thesis
  proof (cases "\<lfloor>x\<rfloor> = \<lfloor>y\<rfloor>")
    case True
    then show ?thesis using xy unfolding rint_def Let_def by auto
  next
    case False
    then have lt: "\<lfloor>x\<rfloor> + 1 \<le> \<lfloor>y\<rfloor>" using fl by linarith
    have a: "rint x \<le> \<lfloor>x\<rfloor> + 1" unfolding rint_def Let_def by auto
    have b: "\<lfloor>y\<rfloor> \<le> rint y" unfolding rint_def Let_def by auto
    from a b lt show ?thesis by linarith
  qed
qed

lemma round_dec_id: "x * 10 ^ n = of_int k \<Longrightarrow> round_dec n x = x"
  by (simp add: round_dec_def field_simps)

lemma round_dec_mono: "x \<le> y \<Longrightarrow> round_dec n x \<le> round_dec n y"
  unfolding round_dec_def
  by (intro divide_right_mono) (auto intro!: rint_mono mult_right_mono)

lemma round_dec_err: "\<bar>round_dec n x - x\<bar> \<le> 1 / (2 * 10 ^ n)"
proof -
  have "\<bar>of_int (rint (x * 10 ^ n)) - x * 10 ^ n\<bar> \<le> 1 / 2" by (rule rint_err)
  then have "\<bar>of_int (rint (x * 10 ^ n)) - x * 10 ^ n\<bar> / 10 ^ n \<le> (1 / 2) / 10 ^ n"
    by (intro divide_right_mono) auto
  moreover have "round_dec n x - x = (of_int (rint (x * 10 ^ n)) - x * 10 ^ n) / 10 ^ n"
    by (simp add: round_dec_def field_simps)
  then have "\<bar>of_int (rint (x * 10 ^ n)) - x * 10 ^ n\<bar> / 10 ^ n = \<bar>round_dec n x - x\<bar>"
    by simp
  ultimately show ?thesis by simp
qed

lemma round_dec_nonneg: "0 \<le> x \<Longrightarrow> 0 \<le> round_dec n x"
  using round_dec_mono [of 0 x n] by (simp add: round_dec_def rint_def)


subsection \<open>Balance per invoice\<close>

lemma columns_filtrar_movimientos [simp]: "columns (filtrar_movimientos df) = columns df"
  by (simp add: filtrar_movimientos_def Let_def)

lemma filtrar_activos_eq: "filtrar_activos df = filtrar_movimientos df"
  by (simp add: filtrar_movimientos_def filtrar_activos_def)

lemma saldo_neto_abonos_de:
  "saldo_neto df c =
     round_dec 2 (monto c - (if ''DOCTO_CC_ACR_ID'' \<in> set (columns df) \<and> ''DOCTO_CC_ID'' \<in> set (columns df)
                             then abonos_de (filas df) c else 0))"
  using abonos_de_vinculados [of df c] abonos_vinculados_sin_columna [of df c]
  by (auto simp: saldo_neto_def)

text \<open>
  C1. For every charge row of the filtered table (cancelled documents and unapplied
  advances removed), the invoice balance is the amount of the charge,
  \<open>IMPORTE + IMPUESTO\<close>, minus the sum of \<open>IMPORTE + IMPUESTO\<close> over the payment rows
  whose \<open>DOCTO_CC_ACR_ID\<close> equals the id of the charge (zero when there is none), rounded
  to two decimals. Both implementations, the report's and the KPI module's, return a
  frame when the three columns they read are there, and both compute that balance.
\<close>

theorem saldo_factura_es_cargo_menos_abonos:
  assumes cols: "set [''IMPORTE'', ''IMPUESTO'', ''TIPO_IMPTE''] \<subseteq> set (columns df)"
  shows "(\<exists>out. calcular_saldo_factura (filtrar_movimientos df) = Inr out
            \<and> length (filas out) = length (filas (filtrar_movimientos df))
            \<and> (\<forall>i < length (filas out).
                 TIPO_IMPTE (filas (filtrar_movimientos df) ! i) = ''C'' \<longrightarrow>
                   SALDO_FACTURA (filas out ! i)
                     = Some (saldo_neto (filtrar_movimientos df) (filas (filtrar_movimientos df) ! i))))
       \<and> (\<exists>out. saldos_por_factura (filtrar_activos df) = Inr out
            \<and> map SALDO (filas out)
                = map (saldo_neto (filtrar_activos df))
                    (filter (\<lambda>r. TIPO_IMPTE r = ''C'') (filas (filtrar_activos df))))"
proof (intro conjI)
  show "\<exists>out. calcular_saldo_factura (filtrar_movimientos df) = Inr out
            \<and> length (filas out) = length (filas (filtrar_movimientos df))
            \<and> (\<forall>i < length (filas out).
                 TIPO_IMPTE (filas (filtrar_movimientos df) ! i) = ''C'' \<longrightarrow>
                   SALDO_FACTURA (filas out ! i)
                     = Some (saldo_neto (filtrar_movimientos df) (filas (filtrar_movimientos df) ! i)))"
    using cols by (auto simp: calcular_saldo_factura_def Let_def saldo_neto_abonos_de)
  show "\<exists>out. saldos_por_factura (filtrar_activos df) = Inr out
            \<and> map SALDO (filas out)
                = map (saldo_neto (filtrar_activos df))
                    (filter (\<lambda>r. TIPO_IMPTE r = ''C'') (filas (filtrar_activos df)))"
    unfolding filtrar_activos_eq using cols
    by (auto simp: saldos_por_factura_def Let_def saldo_neto_abonos_de monto_def)
qed

text \<open>On the example ledger the balance of the charge is 1160 - 500 = 660.\<close>

lemma ej_filtrado: "filas (filtrar_movimientos ej_df) = [ej_cargo, ej_abono]"
  by (simp add: filtrar_movimientos_def ej_df_def ej_columnas_def ej_cargo_def ej_abono_def
      ej_cancelado_def ej_anticipo_def fila_nula_def)

lemma ej_saldo_neto: "saldo_neto (filtrar_movimientos ej_df) ej_cargo = 660"
  by (simp add: saldo_neto_def abonos_vinculados_def ej_filtrado)
     (simp add: ej_df_def ej_columnas_def ej_cargo_def ej_abono_def fila_nula_def monto_def
        round_dec_def rint_def)

theorem saldo_factura_es_cargo_menos_abonos_witness:
  "set [''IMPORTE'', ''IMPUESTO'', ''TIPO_IMPTE''] \<subseteq> set (columns ej_df)
   \<and> (\<exists>out. calcular_saldo_factura (filtrar_movimientos ej_df) = Inr out
         \<and> SALDO_FACTURA (filas out ! 0) = Some 660)
   \<and> (\<exists>out. saldos_por_factura (filtrar_activos ej_df) = Inr out
         \<and> map SALDO (filas out) = [660])"
proof -
  have h: "set [''IMPORTE'', ''IMPUESTO'', ''TIPO_IMPTE''] \<subseteq> set (columns ej_df)"
    by (simp add: ej_df_def ej_columnas_def)
  have c: "TIPO_IMPTE ej_cargo = ''C''" "TIPO_IMPTE ej_abono \<noteq> ''C''"
    by (simp_all add: ej_cargo_def ej_abono_def fila_nula_def)
  from saldo_factura_es_cargo_menos_abonos [OF h] show ?thesis
    using h c by (auto simp: ej_filtrado ej_saldo_neto filtrar_activos_eq)
qed

subsection \<open>Outlier detection\<close>

lemma std_nonneg: "0 \<le> std xs"
proof -
  have s: "0 \<le> sum_list (map (\<lambda>x. (x - mean xs)\<^sup>2) xs)"
    by (rule sum_list_nonneg) auto
  show ?thesis
  proof (cases xs)
    case Nil
    then show ?thesis by (simp add: std_def)
  next
    case (Cons a as)
    then have "0 \<le> real (length xs) - 1" by simp
    with s show ?thesis unfolding std_def by (intro real_sqrt_ge_zero divide_nonneg_nonneg)
  qed
qed

lemma std_pos_iff: "0 < std xs \<longleftrightarrow> std xs \<noteq> 0"
  using std_nonneg [of xs] by linarith

lemma exacta_campos [simp]: "media exacta = mean" "desv exacta = std"
  by (simp_all add: exacta_def)

lemma zscore_z_muestral: "zscore exacta serie v = z_muestral serie v"
  using std_nonneg [of serie]
  by (simp add: zscore_def z_muestral_def std_def mean_def)

lemma zscores_importe_otros [simp]:
  "IMPORTE (zscores_importe d u cs fs r) = IMPORTE r"
  "TIPO_IMPTE (zscores_importe d u cs fs r) = TIPO_IMPTE r"
  "DELTA_RECAUDO (zscores_importe d u cs fs r) = DELTA_RECAUDO r"
  "DELTA_MORA (zscores_importe d u cs fs r) = DELTA_MORA r"
  by (simp_all add: zscores_importe_def Let_def)

lemma zscores_delta_recaudo_otros [simp]:
  "IMPORTE (zscores_delta_recaudo d u cs fs r) = IMPORTE r"
  "TIPO_IMPTE (zscores_delta_recaudo d u cs fs r) = TIPO_IMPTE r"
  "DELTA_RECAUDO (zscores_delta_recaudo d u cs fs r) = DELTA_RECAUDO r"
  "DELTA_MORA (zscores_delta_recaudo d u cs fs r) = DELTA_MORA r"
  "ZSCORE_IMPORTE (zscores_delta_recaudo d u cs fs r) = ZSCORE_IMPORTE r"
  "ATIPICO_IMPORTE (zscores_delta_recaudo d u cs fs r) = ATIPICO_IMPORTE r"
  by (simp_all add: zscores_delta_recaudo_def Let_def split: option.split)

lemma zscores_delta_mora_otros [simp]:
  "IMPORTE (zscores_delta_mora d u cs fs r) = IMPORTE r"
  "TIPO_IMPTE (zscores_delta_mora d u cs fs r) = TIPO_IMPTE r"
  "DELTA_RECAUDO (zscores_delta_mora d u cs fs r) = DELTA_RECAUDO r"
  "DELTA_MORA (zscores_delta_mora d u cs fs r) = DELTA_MORA r"
  "ZSCORE_IMPORTE (zscores_delta_mora d u cs fs r) = ZSCORE_IMPORTE r"
  "ATIPICO_IMPORTE (zscores_delta_mora d u cs fs r) = ATIPICO_IMPORTE r"
  "ZSCORE_DELTA_RECAUDO (zscores_delta_mora d u cs fs r) = ZSCORE_DELTA_RECAUDO r"
  "ATIPICO_DELTA_RECAUDO (zscores_delta_mora d u cs fs r) = ATIPICO_DELTA_RECAUDO r"
  by (simp_all add: zscores_delta_mora_def Let_def split: option.split)

lemma filas_agregar_zscores:
  "filas (agregar_zscores d u df) =
     map (\<lambda>r. zscores_delta_mora d u (columns df) (filas df)
                (zscores_delta_recaudo d u (columns df) (filas df)
                   (zscores_importe d u (columns df) (filas df) r))) (filas df)"
  by (simp add: agregar_zscores_def Let_def)


lemma no_evaluable_iff: "no_evaluable exacta xs \<longleftrightarrow> \<not> (3 \<le> length xs \<and> 0 < std xs)"
  using std_nonneg [of xs] by (auto simp: no_evaluable_def)





text \<open>Three equal charges have a standard deviation of zero; the charges 1, 3, 5 have
  mean 3 and sample standard deviation 2.\<close>

lemma std_iguales: "std [100, 100, 100] = 0"
  by (simp add: std_def mean_def)

lemma mean_135: "mean [1, 3, 5] = 3"
  by (simp add: mean_def)

lemma std_135: "std [1, 3, 5] = 2"
  by (simp add: std_def mean_135)

lemma zscore_135:
  "zscore exacta [1, 3, 5] 1 = 1" "zscore exacta [1, 3, 5] 3 = 0" "zscore exacta [1, 3, 5] 5 = 1"
  by (simp_all add: zscore_def mean_135 std_135)


lemma ej_deltas_campos [simp]:
  "TIPO_IMPTE (ej_cerrada k) = ''C''" "IMPORTE (ej_cerrada k) = 100"
  "DELTA_RECAUDO (ej_cerrada k) = Some 5" "DELTA_MORA (ej_cerrada k) = None"
  "TIPO_IMPTE (ej_abierta k d) = ''C''" "IMPORTE (ej_abierta k d) = 100"
  "DELTA_RECAUDO (ej_abierta k d) = None" "DELTA_MORA (ej_abierta k d) = Some d"
  by (simp_all add: ej_cerrada_def ej_abierta_def ej_cargo_de_def fila_nula_def)



text \<open>
  With statistics that carry a rounding residue, the three equal charges are all flagged
  at the threshold 0.5: their deviation is not zero, and the statement above does not
  apply to them.
\<close>

lemma serie_constante_con_residuo:
  "\<not> no_evaluable ej_est_redondeo (map IMPORTE (filter (\<lambda>r. TIPO_IMPTE r = ''C'') (filas ej_decimos)))
   \<and> map ATIPICO_IMPORTE (filas (agregar_zscores ej_est_redondeo (1 / 2) ej_decimos))
       = [Some True, Some True, Some True]"
proof -
  have f: "filas ej_decimos = [ej_cargo_de 1 decimo 0, ej_cargo_de 2 decimo 0, ej_cargo_de 3 decimo 0]"
    "columns ej_decimos = ej_columnas"
    by (simp_all add: ej_decimos_def)
  have c: "TIPO_IMPTE (ej_cargo_de k a b) = ''C''" "IMPORTE (ej_cargo_de k a b) = a" for k a b
    by (simp_all add: ej_cargo_de_def fila_nula_def)
  have z: "zscore ej_est_redondeo xs decimo = 10 ^ 18 / (17 * 2 ^ 56)" for xs
    by (simp add: zscore_def ej_est_redondeo_def)
  have d: "desv ej_est_redondeo xs = 17 / 10 ^ 18" for xs
    by (simp add: ej_est_redondeo_def)
  show ?thesis
    by (simp add: no_evaluable_def filas_agregar_zscores f c ej_columnas_def zscores_importe_def
        Let_def z d)
qed

lemma ej_crudo_135_serie:
  "List.map_filter IMPORTE (filter (\<lambda>r. TIPO_IMPTE r = ''C'') (filas ej_crudo_135)) = [1, 3, 5]"
  by (simp add: ej_crudo_135_def ej_crudo_de_def fila_cruda_nula_def List.map_filter_simps)

lemma ej_crudo_135_atipicos:
  "map IMPORTE (filas (detectar_importes_atipicos exacta ej_config ej_crudo_135)) = [Some 1, Some 5]
   \<and> map ZSCORE_IMPORTE (filas (detectar_importes_atipicos exacta ej_config ej_crudo_135)) = [Some 1, Some 1]"
proof -
  have cols: "''IMPORTE'' \<in> set (columns ej_crudo_135)" "''TIPO_IMPTE'' \<in> set (columns ej_crudo_135)"
    by (simp_all add: ej_crudo_135_def ej_columnas_def)
  have v: "filter (\<lambda>r. TIPO_IMPTE r = ''C'') (filas ej_crudo_135)
             = [ej_crudo_de 1 1, ej_crudo_de 2 3, ej_crudo_de 3 5]"
    by (simp add: ej_crudo_135_def ej_crudo_de_def fila_cruda_nula_def)
  have i: "IMPORTE (ej_crudo_de k a) = Some a" for k a
    by (simp add: ej_crudo_de_def fila_cruda_nula_def)
  have u: "umbral_de ej_config ''importe_zscore_umbral'' = 1"
    by (simp add: umbral_de_def ej_config_def)
  show ?thesis
    unfolding detectar_importes_atipicos_def Let_def ej_crudo_135_serie v u
    using cols by (simp add: std_135 zscore_135 i)
qed

lemma std_poblacional_135: "std_poblacional [1, 3, 5] \<noteq> 2"
proof
  assume "std_poblacional [1, 3, 5] = 2"
  then have "sqrt (8 / 3) = sqrt 4"
    by (simp add: std_poblacional_def mean_135)
  then have "(8 / 3 :: real) = 4"
    by (simp only: real_sqrt_eq_iff)
  then show False by simp
qed

text \<open>
  C3, as stated, fails: the z-scores divide by the sample standard deviation, not by
  the population one. For the charges 1, 3, 5 and the threshold 1 the auditor selects
  the charges 1 and 5 with the z-score 1, while the distance of 5 to the mean over the
  population standard deviation is not 1.
\<close>

theorem zscore_poblacional_counterexample:
  "map IMPORTE (filas (detectar_importes_atipicos exacta ej_config ej_crudo_135)) = [Some 1, Some 5]
   \<and> map ZSCORE_IMPORTE (filas (detectar_importes_atipicos exacta ej_config ej_crudo_135)) = [Some 1, Some 1]
   \<and> List.map_filter IMPORTE (filter (\<lambda>r. TIPO_IMPTE r = ''C'') (filas ej_crudo_135)) = [1, 3, 5]
   \<and> \<bar>5 - mean [1, 3, 5]\<bar> / std_poblacional [1, 3, 5] \<noteq> 1"
proof -
  have "std_poblacional [1, 3, 5] \<noteq> 0"
    by (simp add: std_poblacional_def mean_135)
  then have "\<bar>5 - mean [1, 3, 5]\<bar> / std_poblacional [1, 3, 5] \<noteq> 1"
    using std_poblacional_135 by (simp add: mean_135 field_simps)
  then show ?thesis
    using ej_crudo_135_atipicos ej_crudo_135_serie by simp
qed


lemma leer_escribir [simp]:
  "leer_delta c (escribir_zscore c z r) = leer_delta c r"
  "leer_delta c (r\<lparr>MOTIVO := m\<rparr>) = leer_delta c r"
  "leer_zscore c (r\<lparr>MOTIVO := m\<rparr>) = leer_zscore c r"
  "leer_zscore c (escribir_zscore c z r) = (if c = ''DELTA_RECAUDO'' \<or> c = ''DELTA_MORA'' then z else None)"
  by (auto simp: leer_delta_def escribir_zscore_def leer_zscore_def)

lemma zscore_importe_report:
  "ZSCORE_IMPORTE (zscores_importe exacta u cs fs r) =
     (if ''IMPORTE'' \<in> set cs \<and> ''TIPO_IMPTE'' \<in> set cs
         \<and> \<not> no_evaluable exacta (map IMPORTE (filter (\<lambda>r. TIPO_IMPTE r = ''C'') fs)) \<and> TIPO_IMPTE r = ''C''
      then Some (round_dec 4 (z_muestral (map IMPORTE (filter (\<lambda>r. TIPO_IMPTE r = ''C'') fs)) (IMPORTE r)))
      else None)"
  by (simp add: zscores_importe_def Let_def no_evaluable_iff zscore_z_muestral)

lemma zscore_recaudo_report:
  "ZSCORE_DELTA_RECAUDO (zscores_delta_recaudo exacta u cs fs r) =
     (if ''DELTA_RECAUDO'' \<in> set cs \<and> \<not> no_evaluable exacta (List.map_filter DELTA_RECAUDO fs)
      then map_option (\<lambda>d. round_dec 4 (z_muestral (List.map_filter DELTA_RECAUDO fs) d)) (DELTA_RECAUDO r)
      else None)"
  by (simp add: zscores_delta_recaudo_def Let_def no_evaluable_iff zscore_z_muestral
           split: option.split)

lemma zscore_mora_report:
  "ZSCORE_DELTA_MORA (zscores_delta_mora exacta u cs fs r) =
     (if ''DELTA_MORA'' \<in> set cs \<and> \<not> no_evaluable exacta (List.map_filter DELTA_MORA fs)
      then map_option (\<lambda>d. round_dec 4 (z_muestral (List.map_filter DELTA_MORA fs) d)) (DELTA_MORA r)
      else None)"
  by (simp add: zscores_delta_mora_def Let_def no_evaluable_iff zscore_z_muestral
           split: option.split)

lemma detectar_importes_atipicos_z:
  assumes "r \<in> set (filas (detectar_importes_atipicos exacta config dc))"
  shows "\<exists>v. IMPORTE r = Some v
           \<and> ZSCORE_IMPORTE r
               = Some (z_muestral (List.map_filter IMPORTE (filter (\<lambda>r. TIPO_IMPTE r = ''C'') (filas dc))) v)
           \<and> umbral_de config ''importe_zscore_umbral''
               \<le> z_muestral (List.map_filter IMPORTE (filter (\<lambda>r. TIPO_IMPTE r = ''C'') (filas dc))) v"
proof -
  let ?ventas = "filter (\<lambda>r. TIPO_IMPTE r = ''C'') (filas dc)"
  let ?s = "List.map_filter IMPORTE ?ventas"
  let ?u = "umbral_de config ''importe_zscore_umbral''"
  let ?conz = "map (\<lambda>r. r\<lparr>ZSCORE_IMPORTE := map_option (zscore exacta ?s) (IMPORTE r)\<rparr>) ?ventas"
  let ?at = "filter (\<lambda>r. case ZSCORE_IMPORTE r of None \<Rightarrow> False | Some z \<Rightarrow> ?u \<le> z) ?conz"
  have "set (filas (detectar_importes_atipicos exacta config dc))
          \<subseteq> (\<lambda>r. r\<lparr>MOTIVO := ''Importe de venta atipico''\<rparr>) ` set ?at"
    unfolding detectar_importes_atipicos_def Let_def DataFrame_vacio_def
    by (simp only: split: if_split) simp
  with assms obtain r1 where r1: "r1 \<in> set ?at" and r: "r = r1\<lparr>MOTIVO := ''Importe de venta atipico''\<rparr>"
    by blast
  from r1 obtain r0 where r0: "r1 = r0\<lparr>ZSCORE_IMPORTE := map_option (zscore exacta ?s) (IMPORTE r0)\<rparr>"
    and z: "case ZSCORE_IMPORTE r1 of None \<Rightarrow> False | Some z \<Rightarrow> ?u \<le> z"
    by auto
  from z r0 obtain v where "IMPORTE r0 = Some v" "?u \<le> zscore exacta ?s v"
    by (cases "IMPORTE r0") auto
  with r r0 show ?thesis
    by (simp add: zscore_z_muestral)
qed

lemma detectar_atipicos_delta_z:
  assumes "r \<in> set (filas (detectar_atipicos_delta exacta config df columna umbral_key))"
  shows "\<exists>v. leer_delta columna r = Some v
           \<and> leer_zscore columna r
               = Some (z_muestral (List.map_filter (leer_delta columna)
                        (if ''TIPO_IMPTE'' \<in> set (columns df)
                         then filter (\<lambda>r. TIPO_IMPTE r = ''C'') (filas df) else filas df)) v)
           \<and> umbral_de config umbral_key
               \<le> z_muestral (List.map_filter (leer_delta columna)
                        (if ''TIPO_IMPTE'' \<in> set (columns df)
                         then filter (\<lambda>r. TIPO_IMPTE r = ''C'') (filas df) else filas df)) v"
proof -
  let ?cargos = "if ''TIPO_IMPTE'' \<in> set (columns df)
                 then filter (\<lambda>r. TIPO_IMPTE r = ''C'') (filas df) else filas df"
  let ?s = "List.map_filter (leer_delta columna) ?cargos"
  let ?u = "umbral_de config umbral_key"
  let ?conz = "map (\<lambda>r. escribir_zscore columna (map_option (zscore exacta ?s) (leer_delta columna r)) r) ?cargos"
  let ?at = "filter (\<lambda>r. case leer_zscore columna r of None \<Rightarrow> False | Some z \<Rightarrow> ?u \<le> z) ?conz"
  have "set (filas (detectar_atipicos_delta exacta config df columna umbral_key))
          \<subseteq> (\<lambda>r. r\<lparr>MOTIVO := ''Valor atipico en '' @ columna\<rparr>) ` set ?at"
    unfolding detectar_atipicos_delta_def Let_def DataFrame_vacio_def
    by (simp only: split: if_split) simp
  with assms obtain r1 where r1: "r1 \<in> set ?at" and r: "r = r1\<lparr>MOTIVO := ''Valor atipico en '' @ columna\<rparr>"
    by blast
  from r1 obtain r0 where
    r0: "r1 = escribir_zscore columna (map_option (zscore exacta ?s) (leer_delta columna r0)) r0"
    and z: "case leer_zscore columna r1 of None \<Rightarrow> False | Some z \<Rightarrow> ?u \<le> z"
    by auto
  from z r0 obtain v where "leer_delta columna r0 = Some v" "?u \<le> zscore exacta ?s v"
    "columna = ''DELTA_RECAUDO'' \<or> columna = ''DELTA_MORA''"
    by (cases "leer_delta columna r0") (auto split: if_splits)
  with r r0 show ?thesis
    by (simp add: zscore_z_muestral)
qed

text \<open>
  C3, amended. Every z-score of the detectors is the distance of the value to the mean
  of the present values of its series, divided by their sample standard deviation
  (\<open>n - 1\<close> under the sum of squares); the statistics are taken without rounding,
  \<open>exacta\<close>. The series of the charge amounts is the
  \<open>IMPORTE\<close> column of the charge rows. Each row that an auditor's detector returns
  carries that z-score, which is at least the threshold. In the report a row has the
  z-score rounded to four decimals exactly when its series can be evaluated and the row
  belongs to it, and none otherwise.
\<close>

theorem zscore_es_desviacion_muestral:
  "(\<forall>r \<in> set (filas (detectar_importes_atipicos exacta config dc)).
      \<exists>v. IMPORTE r = Some v
        \<and> ZSCORE_IMPORTE r
            = Some (z_muestral (List.map_filter IMPORTE (filter (\<lambda>r. TIPO_IMPTE r = ''C'') (filas dc))) v)
        \<and> umbral_de config ''importe_zscore_umbral''
            \<le> z_muestral (List.map_filter IMPORTE (filter (\<lambda>r. TIPO_IMPTE r = ''C'') (filas dc))) v)
   \<and> (\<forall>r \<in> set (filas (detectar_atipicos_delta exacta config df columna umbral_key)).
      \<exists>v. leer_delta columna r = Some v
        \<and> leer_zscore columna r
            = Some (z_muestral (List.map_filter (leer_delta columna)
                     (if ''TIPO_IMPTE'' \<in> set (columns df)
                      then filter (\<lambda>r. TIPO_IMPTE r = ''C'') (filas df) else filas df)) v)
        \<and> umbral_de config umbral_key
            \<le> z_muestral (List.map_filter (leer_delta columna)
                     (if ''TIPO_IMPTE'' \<in> set (columns df)
                      then filter (\<lambda>r. TIPO_IMPTE r = ''C'') (filas df) else filas df)) v)
   \<and> (\<forall>r \<in> set (filas (agregar_zscores exacta umbral df)).
        ZSCORE_IMPORTE r =
          (if ''IMPORTE'' \<in> set (columns df) \<and> ''TIPO_IMPTE'' \<in> set (columns df)
              \<and> \<not> no_evaluable exacta (map IMPORTE (filter (\<lambda>r. TIPO_IMPTE r = ''C'') (filas df)))
              \<and> TIPO_IMPTE r = ''C''
           then Some (round_dec 4 (z_muestral (map IMPORTE (filter (\<lambda>r. TIPO_IMPTE r = ''C'') (filas df)))
                                     (IMPORTE r)))
           else None)
      \<and> ZSCORE_DELTA_RECAUDO r =
          (if ''DELTA_RECAUDO'' \<in> set (columns df) \<and> \<not> no_evaluable exacta (List.map_filter DELTA_RECAUDO (filas df))
           then map_option (\<lambda>d. round_dec 4 (z_muestral (List.map_filter DELTA_RECAUDO (filas df)) d))
                  (DELTA_RECAUDO r)
           else None)
      \<and> ZSCORE_DELTA_MORA r =
          (if ''DELTA_MORA'' \<in> set (columns df) \<and> \<not> no_evaluable exacta (List.map_filter DELTA_MORA (filas df))
           then map_option (\<lambda>d. round_dec 4 (z_muestral (List.map_filter DELTA_MORA (filas df)) d))
                  (DELTA_MORA r)
           else None))"
proof (intro conjI ballI)
  fix r assume "r \<in> set (filas (detectar_importes_atipicos exacta config dc))"
  then show "\<exists>v. IMPORTE r = Some v
        \<and> ZSCORE_IMPORTE r
            = Some (z_muestral (List.map_filter IMPORTE (filter (\<lambda>r. TIPO_IMPTE r = ''C'') (filas dc))) v)
        \<and> umbral_de config ''importe_zscore_umbral''
            \<le> z_muestral (List.map_filter IMPORTE (filter (\<lambda>r. TIPO_IMPTE r = ''C'') (filas dc))) v"
    by (rule detectar_importes_atipicos_z)
next
  fix r assume "r \<in> set (filas (detectar_atipicos_delta exacta config df columna umbral_key))"
  then show "\<exists>v. leer_delta columna r = Some v
        \<and> leer_zscore columna r
            = Some (z_muestral (List.map_filter (leer_delta columna)
                     (if ''TIPO_IMPTE'' \<in> set (columns df)
                      then filter (\<lambda>r. TIPO_IMPTE r = ''C'') (filas df) else filas df)) v)
        \<and> umbral_de config umbral_key
            \<le> z_muestral (List.map_filter (leer_delta columna)
                     (if ''TIPO_IMPTE'' \<in> set (columns df)
                      then filter (\<lambda>r. TIPO_IMPTE r = ''C'') (filas df) else filas df)) v"
    by (rule detectar_atipicos_delta_z)
next
  fix r assume "r \<in> set (filas (agregar_zscores exacta umbral df))"
  then obtain r0 where
    r: "r = zscores_delta_mora exacta umbral (columns df) (filas df)
              (zscores_delta_recaudo exacta umbral (columns df) (filas df)
                 (zscores_importe exacta umbral (columns df) (filas df) r0))"
    by (auto simp: filas_agregar_zscores)
  show "ZSCORE_IMPORTE r =
          (if ''IMPORTE'' \<in> set (columns df) \<and> ''TIPO_IMPTE'' \<in> set (columns df)
              \<and> \<not> no_evaluable exacta (map IMPORTE (filter (\<lambda>r. TIPO_IMPTE r = ''C'') (filas df)))
              \<and> TIPO_IMPTE r = ''C''
           then Some (round_dec 4 (z_muestral (map IMPORTE (filter (\<lambda>r. TIPO_IMPTE r = ''C'') (filas df)))
                                     (IMPORTE r)))
           else None)"
    unfolding r by (simp add: zscore_importe_report)
  show "ZSCORE_DELTA_RECAUDO r =
          (if ''DELTA_RECAUDO'' \<in> set (columns df) \<and> \<not> no_evaluable exacta (List.map_filter DELTA_RECAUDO (filas df))
           then map_option (\<lambda>d. round_dec 4 (z_muestral (List.map_filter DELTA_RECAUDO (filas df)) d))
                  (DELTA_RECAUDO r)
           else None)"
    unfolding r by (simp add: zscore_recaudo_report)
  show "ZSCORE_DELTA_MORA r =
          (if ''DELTA_MORA'' \<in> set (columns df) \<and> \<not> no_evaluable exacta (List.map_filter DELTA_MORA (filas df))
           then map_option (\<lambda>d. round_dec 4 (z_muestral (List.map_filter DELTA_MORA (filas df)) d))
                  (DELTA_MORA r)
           else None)"
    unfolding r by (simp add: zscore_mora_report)
qed


theorem zscore_es_desviacion_muestral_witness:
  "filas (detectar_importes_atipicos exacta ej_config ej_crudo_135) \<noteq> []
   \<and> (\<exists>v. IMPORTE (hd (filas (detectar_importes_atipicos exacta ej_config ej_crudo_135))) = Some v
          \<and> ZSCORE_IMPORTE (hd (filas (detectar_importes_atipicos exacta ej_config ej_crudo_135)))
              = Some (z_muestral [1, 3, 5] v)
          \<and> 1 \<le> z_muestral [1, 3, 5] v)"
proof -
  have ne: "filas (detectar_importes_atipicos exacta ej_config ej_crudo_135) \<noteq> []"
    using ej_crudo_135_atipicos by auto
  then have "hd (filas (detectar_importes_atipicos exacta ej_config ej_crudo_135))
               \<in> set (filas (detectar_importes_atipicos exacta ej_config ej_crudo_135))"
    by simp
  moreover have "umbral_de ej_config ''importe_zscore_umbral'' = 1"
    by (simp add: umbral_de_def ej_config_def)
  ultimately show ?thesis
    using zscore_es_desviacion_muestral [of ej_config ej_crudo_135] ne
    by (simp add: ej_crudo_135_serie)
qed

subsection \<open>Principal plus tax\<close>

lemma insort_key_map:
  "insort_key k (t x) (map t xs) = map t (insort_key (\<lambda>y. k (t y)) x xs)"
  by (induction xs) auto

lemma sort_key_map: "sort_key k (map t xs) = map t (sort_key (\<lambda>y. k (t y)) xs)"
  by (induction xs) (auto simp: insort_key_map)

lemma map_filter_map: "List.map_filter f (map t xs) = List.map_filter (\<lambda>x. f (t x)) xs"
  by (simp add: List.map_filter_def filter_map comp_def)

lemma mover_campos [simp]:
  "monto (mover \<delta> r) = monto r"
  "monto_doble (mover \<delta> r) = monto_doble r"
  "TIPO_IMPTE (mover \<delta> r) = TIPO_IMPTE r"
  "DOCTO_CC_ID (mover \<delta> r) = DOCTO_CC_ID r"
  "DOCTO_CC_ACR_ID (mover \<delta> r) = DOCTO_CC_ACR_ID r"
  "NOMBRE_CLIENTE (mover \<delta> r) = NOMBRE_CLIENTE r"
  "FECHA_EMISION (mover \<delta> r) = FECHA_EMISION r"
  "FECHA_VENCIMIENTO (mover \<delta> r) = FECHA_VENCIMIENTO r"
  "CANCELADO (mover \<delta> r) = CANCELADO r"
  "SALDO (mover \<delta> r) = SALDO r"
  "MONTO_CARGO (mover \<delta> r) = MONTO_CARGO r"
  by (simp_all add: mover_def monto_def monto_doble_def)

lemma mover_update [simp]:
  "(mover \<delta> r)\<lparr>SALDO_FACTURA := a\<rparr> = mover \<delta> (r\<lparr>SALDO_FACTURA := a\<rparr>)"
  "(mover \<delta> r)\<lparr>SALDO_CLIENTE := b\<rparr> = mover \<delta> (r\<lparr>SALDO_CLIENTE := b\<rparr>)"
  "(mover \<delta> r)\<lparr>MONTO_CARGO := c\<rparr> = mover \<delta> (r\<lparr>MONTO_CARGO := c\<rparr>)"
  "(mover \<delta> r)\<lparr>MONTO_ABONOS := d, SALDO := e\<rparr> = mover \<delta> (r\<lparr>MONTO_ABONOS := d, SALDO := e\<rparr>)"
  by (simp_all add: mover_def)

lemma trasladar_campos [simp]:
  "columns (trasladar \<delta> df) = columns df"
  "filas (trasladar \<delta> df) = map (mover \<delta>) (filas df)"
  by (simp_all add: trasladar_def)

lemma abonos_por_cargo_mover [simp]:
  "abonos_por_cargo (map (mover \<delta>) fs) k = abonos_por_cargo fs k"
  by (simp add: abonos_por_cargo_def filter_map comp_def Let_def)

lemma abonos_de_mover [simp]:
  "abonos_de (map (mover \<delta>) fs) (mover \<delta> r) = abonos_de fs r"
  by (simp add: abonos_de_def split: option.split)

lemma filtrar_movimientos_trasladar:
  "filtrar_movimientos (trasladar \<delta> df) = trasladar \<delta> (filtrar_movimientos df)"
  by (simp add: filtrar_movimientos_def trasladar_def filter_map comp_def Let_def)

lemma calcular_saldo_factura_trasladar:
  "calcular_saldo_factura (trasladar \<delta> df) = map_sum id (trasladar \<delta>) (calcular_saldo_factura df)"
  by (simp add: calcular_saldo_factura_def Let_def trasladar_def)

lemma movimiento_mover [simp]: "movimiento (mover \<delta> r) = movimiento r"
  by (simp add: movimiento_def)

lemma cumsum_por_cliente_mover:
  "cumsum_por_cliente acc (map (mover \<delta>) rs) = map (mover \<delta>) (cumsum_por_cliente acc rs)"
  by (induction rs arbitrary: acc) (simp_all add: Let_def split: option.split)

lemma clave_saldo_cliente_mover [simp]:
  "clave_saldo_cliente cs (mover \<delta> r) = clave_saldo_cliente cs r"
  by (simp add: clave_saldo_cliente_def)

lemma calcular_saldo_cliente_trasladar:
  "calcular_saldo_cliente (trasladar \<delta> df) = map_sum id (trasladar \<delta>) (calcular_saldo_cliente df)"
  by (simp add: calcular_saldo_cliente_def trasladar_def sort_key_map cumsum_por_cliente_mover)

lemma saldos_por_factura_trasladar:
  "saldos_por_factura (trasladar \<delta> df) = map_sum id (trasladar \<delta>) (saldos_por_factura df)"
  by (simp add: saldos_por_factura_def Let_def trasladar_def filter_map comp_def)

lemma en_periodo_mover [simp]: "en_periodo a b (mover \<delta> r) = en_periodo a b r"
  by (simp add: en_periodo_def)

lemma calcular_dso_trasladar:
  "calcular_dso (trasladar \<delta> df) (trasladar \<delta> s) hoy ini dias = calcular_dso df s hoy ini dias"
  by (simp add: calcular_dso_def Let_def filter_map comp_def)

lemma calcular_cei_trasladar:
  "calcular_cei suma (trasladar \<delta> df) hoy ini = calcular_cei suma df hoy ini"
  by (simp add: calcular_cei_def cobrable_def saldo_inicio_def saldo_actual_def cargos_periodo_def
      cobros_periodo_def filter_map comp_def)

lemma calcular_morosidad_trasladar:
  "calcular_morosidad (trasladar \<delta> s) hoy = calcular_morosidad s hoy"
  by (simp add: calcular_morosidad_def Let_def filter_map comp_def)

lemma por_cliente_mover: "por_cliente (map (mover \<delta>) fs) = por_cliente fs"
  by (simp add: por_cliente_def filter_map comp_def map_filter_map)

lemma calcular_concentracion_trasladar:
  "calcular_concentracion (trasladar \<delta> s) = calcular_concentracion s"
  by (simp add: calcular_concentracion_def por_cliente_mover)

lemma generar_kpis_trasladar:
  "generar_kpis suma hoy (trasladar \<delta> df) dias = generar_kpis suma hoy df dias"
  unfolding generar_kpis_def Let_def filtrar_activos_eq filtrar_movimientos_trasladar
    saldos_por_factura_trasladar
  by (cases "saldos_por_factura (filtrar_movimientos df)")
     (simp_all add: calcular_dso_trasladar calcular_cei_trasladar calcular_morosidad_trasladar
        calcular_concentracion_trasladar cong: sum.case_cong)

lemma con_impuesto_campos [simp]:
  "columns (con_impuesto g df) = columns df"
  "filas (con_impuesto g df) = map (\<lambda>r. r\<lparr>IMPUESTO := g (DOCTO_CC_ID r)\<rparr>) (filas df)"
  by (simp_all add: con_impuesto_def)

lemma con_impuesto_vacio [simp]: "con_impuesto g DataFrame_vacio = DataFrame_vacio"
  by (simp add: con_impuesto_def DataFrame_vacio_def)

lemma zscores_importe_impuesto:
  "zscores_importe e u cs (map (\<lambda>r. r\<lparr>IMPUESTO := g (DOCTO_CC_ID r)\<rparr>) fs) (r\<lparr>IMPUESTO := x\<rparr>)
     = (zscores_importe e u cs fs r)\<lparr>IMPUESTO := x\<rparr>"
  by (simp add: zscores_importe_def Let_def filter_map comp_def)

lemma zscores_delta_recaudo_impuesto:
  "zscores_delta_recaudo e u cs (map (\<lambda>r. r\<lparr>IMPUESTO := g (DOCTO_CC_ID r)\<rparr>) fs) (r\<lparr>IMPUESTO := x\<rparr>)
     = (zscores_delta_recaudo e u cs fs r)\<lparr>IMPUESTO := x\<rparr>"
  by (simp add: zscores_delta_recaudo_def Let_def map_filter_map split: option.split)

lemma zscores_delta_mora_impuesto:
  "zscores_delta_mora e u cs (map (\<lambda>r. r\<lparr>IMPUESTO := g (DOCTO_CC_ID r)\<rparr>) fs) (r\<lparr>IMPUESTO := x\<rparr>)
     = (zscores_delta_mora e u cs fs r)\<lparr>IMPUESTO := x\<rparr>"
  by (simp add: zscores_delta_mora_def Let_def map_filter_map split: option.split)

lemma zscores_DOCTO_CC_ID [simp]:
  "DOCTO_CC_ID (zscores_importe e u cs fs r) = DOCTO_CC_ID r"
  "DOCTO_CC_ID (zscores_delta_recaudo e u cs fs r) = DOCTO_CC_ID r"
  "DOCTO_CC_ID (zscores_delta_mora e u cs fs r) = DOCTO_CC_ID r"
  by (simp_all add: zscores_importe_def zscores_delta_recaudo_def zscores_delta_mora_def Let_def
        split: option.split)

lemma agregar_zscores_con_impuesto:
  "agregar_zscores e u (con_impuesto g df) = con_impuesto g (agregar_zscores e u df)"
  by (simp add: agregar_zscores_def Let_def con_impuesto_def zscores_importe_impuesto
      zscores_delta_recaudo_impuesto zscores_delta_mora_impuesto)

lemma detectar_importes_atipicos_con_impuesto:
  "detectar_importes_atipicos e config (con_impuesto h dc)
     = con_impuesto h (detectar_importes_atipicos e config dc)"
  by (simp add: detectar_importes_atipicos_def Let_def filter_map comp_def map_filter_map
      con_impuesto_def DataFrame_vacio_def)

text \<open>
  C4, amended. The balances per invoice (of the report and of the KPI module), the
  running balances and the KPIs depend on \<open>IMPORTE\<close> and \<open>IMPUESTO\<close> through their
  sum only: moving principal into tax leaves every computed column and every KPI as it
  was. The z-score over the charge amounts, in the report and in the auditor, is
  computed from \<open>IMPORTE\<close> alone: replacing the tax changes nothing in it.
\<close>

theorem monto_es_importe_mas_impuesto:
  "calcular_saldo_factura (trasladar \<delta> df) = map_sum id (trasladar \<delta>) (calcular_saldo_factura df)
   \<and> saldos_por_factura (trasladar \<delta> df) = map_sum id (trasladar \<delta>) (saldos_por_factura df)
   \<and> calcular_saldo_cliente (trasladar \<delta> df) = map_sum id (trasladar \<delta>) (calcular_saldo_cliente df)
   \<and> generar_kpis suma hoy (trasladar \<delta> df) dias_periodo = generar_kpis suma hoy df dias_periodo
   \<and> agregar_zscores est umbral (con_impuesto g df) = con_impuesto g (agregar_zscores est umbral df)
   \<and> detectar_importes_atipicos est config (con_impuesto h dc)
       = con_impuesto h (detectar_importes_atipicos est config dc)"
  by (simp only: calcular_saldo_factura_trasladar saldos_por_factura_trasladar
      calcular_saldo_cliente_trasladar generar_kpis_trasladar agregar_zscores_con_impuesto
      detectar_importes_atipicos_con_impuesto simp_thms)

lemma ej_impuestos_filas:
  "filas ej_impuestos = [ej_cargo_de 1 1 4, ej_cargo_de 2 3 2, ej_cargo_de 3 5 0]"
  "columns ej_impuestos = ej_columnas"
  by (simp_all add: ej_impuestos_def)

lemma ej_cargo_de_campos [simp]:
  "TIPO_IMPTE (ej_cargo_de k a b) = ''C''" "IMPORTE (ej_cargo_de k a b) = a"
  "IMPUESTO (ej_cargo_de k a b) = b" "DOCTO_CC_ID (ej_cargo_de k a b) = Some k"
  "DELTA_RECAUDO (ej_cargo_de k a b) = None" "DELTA_MORA (ej_cargo_de k a b) = None"
  by (simp_all add: ej_cargo_de_def fila_nula_def)

lemma round_dec_entero [simp]: "round_dec n (of_int k) = of_int k"
  by (rule round_dec_id [of _ _ "k * 10 ^ n"]) simp

lemma ej_impuestos_zscores:
  "map ZSCORE_IMPORTE (filas (agregar_zscores exacta 1 ej_impuestos)) = [Some 1, Some 0, Some 1]
   \<and> map ATIPICO_IMPORTE (filas (agregar_zscores exacta 1 ej_impuestos)) = [Some True, Some False, Some True]"
proof -
  have r1: "round_dec 4 1 = 1" "round_dec 4 0 = 0"
    using round_dec_entero [of 4 1] round_dec_entero [of 4 0] by simp_all
  show ?thesis
    by (simp add: filas_agregar_zscores ej_impuestos_filas ej_columnas_def zscores_importe_def
        std_135 zscore_135 r1)
qed

text \<open>
  C4, as stated, fails for the outlier statistics: with the principals 1, 3, 5 and the
  taxes 4, 2, 0 every amount is 5, a series that cannot be evaluated, and yet the report
  gives the z-scores 1, 0, 1 of the principals and flags two charges at threshold 1.
\<close>

theorem zscore_sobre_importe_counterexample:
  "map monto (filas ej_impuestos) = [5, 5, 5]
   \<and> no_evaluable exacta (map monto (filter (\<lambda>r. TIPO_IMPTE r = ''C'') (filas ej_impuestos)))
   \<and> map ZSCORE_IMPORTE (filas (agregar_zscores exacta 1 ej_impuestos)) = [Some 1, Some 0, Some 1]
   \<and> map ATIPICO_IMPORTE (filas (agregar_zscores exacta 1 ej_impuestos)) = [Some True, Some False, Some True]"
proof -
  have "std [5, 5, 5] = 0"
    by (simp add: std_def mean_def)
  then show ?thesis
    using ej_impuestos_zscores by (simp add: ej_impuestos_filas monto_def no_evaluable_def)
qed

lemma ej_saldo_factura:
  "\<exists>out. calcular_saldo_factura (filtrar_movimientos ej_df) = Inr out
         \<and> map SALDO_FACTURA (filas out) = [Some 660, None]"
proof -
  have cols: "columns ej_df = ej_columnas"
    by (simp add: ej_df_def)
  have a: "abonos_de [ej_cargo, ej_abono] ej_cargo = 500"
    by (simp add: abonos_de_def abonos_por_cargo_def ej_cargo_def ej_abono_def fila_nula_def monto_def)
  have m: "monto ej_cargo = 1160" "TIPO_IMPTE ej_cargo = ''C''" "TIPO_IMPTE ej_abono = ''R''"
    by (simp_all add: ej_cargo_def ej_abono_def fila_nula_def monto_def)
  have r: "round_dec 2 660 = 660"
    using round_dec_entero [of 2 660] by simp
  show ?thesis
    by (simp add: calcular_saldo_factura_def Let_def cols ej_filtrado ej_columnas_def a m r)
qed

theorem monto_es_importe_mas_impuesto_witness:
  "(\<exists>out. calcular_saldo_factura (trasladar (\<lambda>_. 100) (filtrar_movimientos ej_df)) = Inr out
         \<and> map SALDO_FACTURA (filas out) = [Some 660, None])
   \<and> map ZSCORE_IMPORTE (filas (agregar_zscores exacta 1 (con_impuesto (\<lambda>_. 7) ej_impuestos)))
       = [Some 1, Some 0, Some 1]"
proof -
  from ej_saldo_factura obtain out where
    out: "calcular_saldo_factura (filtrar_movimientos ej_df) = Inr out"
         "map SALDO_FACTURA (filas out) = [Some 660, None]"
    by (elim exE conjE)
  have s: "SALDO_FACTURA (mover \<delta> r) = SALDO_FACTURA r" for \<delta> r
    by (simp add: mover_def)
  from monto_es_importe_mas_impuesto [where \<delta> = "\<lambda>_. 100" and df = "filtrar_movimientos ej_df"]
       monto_es_importe_mas_impuesto [where umbral = 1 and g = "\<lambda>_. 7" and df = ej_impuestos]
  show ?thesis
    using out ej_impuestos_zscores by (simp add: comp_def s)
qed

subsection \<open>Collection effectiveness index\<close>




lemma doble_0 [simp]: "doble 0 = 0"
  by (simp add: doble_def)











subsection \<open>Cancelled documents\<close>

lemma filtrar_movimientos_sin_canceladas:
  "filtrar_movimientos (sin_canceladas df) = filtrar_movimientos df"
  by (simp add: filtrar_movimientos_def sin_canceladas_def Let_def)

lemma obtener_por_acreditar_sin_canceladas:
  "obtener_por_acreditar (sin_canceladas df) = obtener_por_acreditar df"
proof -
  have "filter (\<lambda>r. \<not> isin_CANCELADO_VALUES (CANCELADO r))
          (filter (\<lambda>r. TIPO_IMPTE r = ''A'')
             (filter (\<lambda>r. \<not> isin_CANCELADO_VALUES (CANCELADO r)) xs))
        = filter (\<lambda>r. \<not> isin_CANCELADO_VALUES (CANCELADO r)) (filter (\<lambda>r. TIPO_IMPTE r = ''A'') xs)"
    for xs :: "real fila list"
    by (induction xs) auto
  then show ?thesis
    by (simp add: obtener_por_acreditar_def sin_canceladas_def Let_def)
qed

lemma generar_reporte_cxc_sin_canceladas:
  "generar_reporte_cxc est hoy (sin_canceladas df) = generar_reporte_cxc est hoy df"
  unfolding generar_reporte_cxc_def filtrar_movimientos_sin_canceladas
    obtener_por_acreditar_sin_canceladas
  by (rule refl)

lemma generar_kpis_sin_canceladas:
  "generar_kpis suma hoy (sin_canceladas df) dias = generar_kpis suma hoy df dias"
  unfolding generar_kpis_def filtrar_activos_eq filtrar_movimientos_sin_canceladas
  by (rule refl)

lemma filtrar_movimientos_no_cancelada:
  "''CANCELADO'' \<in> set (columns df) \<Longrightarrow> r \<in> set (filas (filtrar_movimientos df))
     \<Longrightarrow> \<not> isin_CANCELADO_VALUES (CANCELADO r)"
  by (auto simp: filtrar_movimientos_def Let_def split: if_splits)

text \<open>
  C5, amended. Rows marked cancelled take no part in the report (balances, running
  balances, cycle metrics and categories, z-scores of the report, the three views) nor
  in the KPIs: both give the same result on the table and on the table without its
  cancelled rows, and the frames they compute on hold no cancelled row. The checks of
  the auditor on client type and salesperson return every row of the raw table that
  lacks the reference, with its cancellation mark, cancelled or not.
\<close>

theorem canceladas_fuera_del_reporte_y_kpis:
  "generar_reporte_cxc est hoy (sin_canceladas df) = generar_reporte_cxc est hoy df
   \<and> generar_kpis suma hoy (sin_canceladas df) dias_periodo = generar_kpis suma hoy df dias_periodo
   \<and> (''CANCELADO'' \<in> set (columns df) \<longrightarrow>
        (\<forall>r \<in> set (filas (filtrar_movimientos df)). \<not> isin_CANCELADO_VALUES (CANCELADO r))
        \<and> (\<forall>r \<in> set (filas (filtrar_activos df)). \<not> isin_CANCELADO_VALUES (CANCELADO r)))
   \<and> (''TIPO_CLIENTE'' \<in> set (columns dc) \<longrightarrow>
        map TIPO_CLIENTE (filas (detectar_sin_tipo_cliente dc))
          = map TIPO_CLIENTE (filter (\<lambda>r. TIPO_CLIENTE r = None) (filas dc))
        \<and> map CANCELADO (filas (detectar_sin_tipo_cliente dc))
          = map CANCELADO (filter (\<lambda>r. TIPO_CLIENTE r = None) (filas dc)))
   \<and> (''VENDEDOR'' \<in> set (columns dc) \<longrightarrow>
        map CANCELADO (filas (detectar_sin_vendedor dc))
          = map CANCELADO (filter (\<lambda>r. VENDEDOR r = None) (filas dc)))"
proof (intro conjI impI)
  show "generar_reporte_cxc est hoy (sin_canceladas df) = generar_reporte_cxc est hoy df"
    by (rule generar_reporte_cxc_sin_canceladas)
  show "generar_kpis suma hoy (sin_canceladas df) dias_periodo = generar_kpis suma hoy df dias_periodo"
    by (rule generar_kpis_sin_canceladas)
next
  assume c: "''CANCELADO'' \<in> set (columns df)"
  then show "\<forall>r \<in> set (filas (filtrar_movimientos df)). \<not> isin_CANCELADO_VALUES (CANCELADO r)"
    using filtrar_movimientos_no_cancelada by blast
  from c show "\<forall>r \<in> set (filas (filtrar_activos df)). \<not> isin_CANCELADO_VALUES (CANCELADO r)"
    unfolding filtrar_activos_eq using filtrar_movimientos_no_cancelada by blast
next
  assume "''TIPO_CLIENTE'' \<in> set (columns dc)"
  then show "map TIPO_CLIENTE (filas (detectar_sin_tipo_cliente dc))
          = map TIPO_CLIENTE (filter (\<lambda>r. TIPO_CLIENTE r = None) (filas dc))"
    and "map CANCELADO (filas (detectar_sin_tipo_cliente dc))
          = map CANCELADO (filter (\<lambda>r. TIPO_CLIENTE r = None) (filas dc))"
    by (simp_all add: detectar_sin_tipo_cliente_def Let_def comp_def)
next
  assume "''VENDEDOR'' \<in> set (columns dc)"
  then show "map CANCELADO (filas (detectar_sin_vendedor dc))
          = map CANCELADO (filter (\<lambda>r. VENDEDOR r = None) (filas dc))"
    by (simp add: detectar_sin_vendedor_def Let_def comp_def)
qed

lemma ej_crudo_de_campos [simp]:
  "TIPO_IMPTE (ej_crudo_de k a) = ''C''" "IMPORTE (ej_crudo_de k a) = Some a"
  "DOCTO_CC_ID (ej_crudo_de k a) = Some k" "CANCELADO (ej_crudo_de k a) = Nulo"
  "TIPO_CLIENTE (ej_crudo_de k a) = None" "VENDEDOR (ej_crudo_de k a) = None"
  by (simp_all add: ej_crudo_de_def fila_cruda_nula_def)

lemma ej_auditoria_columnas:
  "''IMPORTE'' \<in> set (columns ej_auditoria)" "''TIPO_IMPTE'' \<in> set (columns ej_auditoria)"
  "''CANCELADO'' \<in> set (columns ej_auditoria)" "''TIPO_CLIENTE'' \<in> set (columns ej_auditoria)"
  "''VENDEDOR'' \<in> set (columns ej_auditoria)"
  by (simp_all add: ej_auditoria_def ej_columnas_def)

lemma ej_auditoria_atipicos:
  "map DOCTO_CC_ID (filas (detectar_importes_atipicos exacta ej_config ej_auditoria)) = [Some 1, Some 3]"
proof -
  have s: "List.map_filter IMPORTE (filter (\<lambda>r. TIPO_IMPTE r = ''C'') (filas ej_auditoria)) = [1, 3, 5]"
    by (simp add: ej_auditoria_def List.map_filter_simps)
  have v: "filter (\<lambda>r. TIPO_IMPTE r = ''C'') (filas ej_auditoria) = filas ej_auditoria"
    by (simp add: ej_auditoria_def)
  have u: "umbral_de ej_config ''importe_zscore_umbral'' = 1"
    by (simp add: umbral_de_def ej_config_def)
  show ?thesis
    unfolding detectar_importes_atipicos_def Let_def s v u
    using ej_auditoria_columnas by (simp add: std_135 zscore_135 ej_auditoria_def)
qed

text \<open>
  C5, as stated, fails for the auditor, which validates the raw table of the master
  query. Of three charges of principal 1, 3 and 5, the third cancelled and without
  client type or salesperson, the cancelled one enters the statistics of the amounts and
  is flagged as an outlier at threshold 1, and is flagged as lacking client type and
  salesperson.
\<close>

theorem canceladas_en_auditoria_counterexample:
  "''CANCELADO'' \<in> set (columns ej_auditoria)
   \<and> map (\<lambda>r. isin_CANCELADO_VALUES (CANCELADO r)) (filas ej_auditoria) = [False, False, True]
   \<and> map DOCTO_CC_ID (filas ej_auditoria) = [Some 1, Some 2, Some 3]
   \<and> map DOCTO_CC_ID (filas (importes_atipicos (run_audit exacta ej_config ej_auditoria None))) = [Some 1, Some 3]
   \<and> map DOCTO_CC_ID (filas (sin_tipo_cliente (run_audit exacta ej_config ej_auditoria None))) = [Some 3]
   \<and> map DOCTO_CC_ID (filas (sin_vendedor (run_audit exacta ej_config ej_auditoria None))) = [Some 3]"
proof -
  have a: "map (\<lambda>r. isin_CANCELADO_VALUES (CANCELADO r)) (filas ej_auditoria) = [False, False, True]"
    "map DOCTO_CC_ID (filas ej_auditoria) = [Some 1, Some 2, Some 3]"
    by (simp_all add: ej_auditoria_def)
  have t: "map DOCTO_CC_ID (filas (detectar_sin_tipo_cliente ej_auditoria)) = [Some 3]"
    using ej_auditoria_columnas
    by (simp add: detectar_sin_tipo_cliente_def Let_def) (simp add: ej_auditoria_def)
  have v: "map DOCTO_CC_ID (filas (detectar_sin_vendedor ej_auditoria)) = [Some 3]"
    using ej_auditoria_columnas
    by (simp add: detectar_sin_vendedor_def Let_def) (simp add: ej_auditoria_def)
  show ?thesis
    using a t v ej_auditoria_atipicos ej_auditoria_columnas
    by (simp add: run_audit_def Let_def)
qed

lemma ej_df_sin_canceladas: "filas (sin_canceladas ej_df) = [ej_cargo, ej_abono, ej_anticipo]"
  by (simp add: sin_canceladas_def ej_df_def ej_columnas_def ej_cargo_def ej_abono_def
      ej_cancelado_def ej_anticipo_def fila_nula_def)

text \<open>
  The amended C5 on the example ledger, whose third row is a cancelled payment, and on the
  raw table of the auditor.
\<close>

theorem canceladas_fuera_del_reporte_y_kpis_witness:
  "''CANCELADO'' \<in> set (columns ej_df)
   \<and> filas (sin_canceladas ej_df) = [ej_cargo, ej_abono, ej_anticipo]
   \<and> length (filas ej_df) = 4
   \<and> generar_reporte_cxc exacta 100 (sin_canceladas ej_df) = generar_reporte_cxc exacta 100 ej_df
   \<and> generar_kpis suma_doble 100 (sin_canceladas ej_df) 90 = generar_kpis suma_doble 100 ej_df 90
   \<and> list_all (\<lambda>r. \<not> isin_CANCELADO_VALUES (CANCELADO r)) (filas (filtrar_movimientos ej_df))
   \<and> ''TIPO_CLIENTE'' \<in> set (columns ej_auditoria)
   \<and> ''VENDEDOR'' \<in> set (columns ej_auditoria)
   \<and> map CANCELADO (filas (detectar_sin_tipo_cliente ej_auditoria)) = [Texto ''S'']
   \<and> map CANCELADO (filas (detectar_sin_vendedor ej_auditoria)) = [Texto ''S'']"
proof -
  have c: "''CANCELADO'' \<in> set (columns ej_df)" "length (filas ej_df) = 4"
    by (simp_all add: ej_df_def ej_columnas_def)
  have f: "filter (\<lambda>r. TIPO_CLIENTE r = None) (filas ej_auditoria) = [(ej_crudo_de 3 5)\<lparr>CANCELADO := Texto ''S''\<rparr>]"
    "filter (\<lambda>r. VENDEDOR r = None) (filas ej_auditoria) = [(ej_crudo_de 3 5)\<lparr>CANCELADO := Texto ''S''\<rparr>]"
    by (simp_all add: ej_auditoria_def)
  from canceladas_fuera_del_reporte_y_kpis
         [where est = exacta and hoy = 100 and df = ej_df and suma = suma_doble
            and dias_periodo = 90 and dc = ej_auditoria]
  show ?thesis
    using c f ej_auditoria_columnas ej_df_sin_canceladas
    by (simp add: list_all_iff)
qed

subsection \<open>A table without the linkage column\<close>

lemma ej_sin_vinculo_columnas:
  "columns ej_sin_vinculo = [''DOCTO_CC_ID'', ''TIPO_IMPTE'', ''NOMBRE_CLIENTE'',
                  ''FECHA_EMISION'', ''FECHA_VENCIMIENTO'', ''IMPORTE'', ''IMPUESTO'', ''CANCELADO'']"
  by (simp add: ej_sin_vinculo_def ej_columnas_def)

lemma ej_sin_vinculo_filtrado: "filtrar_movimientos ej_sin_vinculo = ej_sin_vinculo"
  by (simp add: filtrar_movimientos_def Let_def ej_sin_vinculo_columnas)
     (simp add: ej_sin_vinculo_def ej_cargo_def ej_abono_def fila_nula_def)

lemma ej_sin_vinculo_saldo:
  "calcular_saldo_factura ej_sin_vinculo
     = Inr \<lparr>columns = columns ej_sin_vinculo @ [''SALDO_FACTURA''],
            filas = [ej_cargo\<lparr>SALDO_FACTURA := Some 1160\<rparr>, ej_abono\<lparr>DOCTO_CC_ACR_ID := None\<rparr>]\<rparr>"
  by (simp add: calcular_saldo_factura_def Let_def ej_sin_vinculo_columnas con_columna_def)
     (simp add: ej_sin_vinculo_def ej_columnas_def ej_cargo_def ej_abono_def fila_nula_def monto_def
        round_dec_entero [of 2 1160, simplified])

lemma ej_sin_vinculo_reporte:
  "\<exists>rep. generar_reporte_cxc exacta 100 ej_sin_vinculo = Inr rep
     \<and> ''SALDO_FACTURA'' \<in> set (columns (reporte_cxc rep))
     \<and> ''DELTA_RECAUDO'' \<in> set (columns (reporte_cxc rep))
     \<and> ''DELTA_MORA'' \<in> set (columns (reporte_cxc rep))
     \<and> map TIPO_IMPTE (filas (reporte_cxc rep)) = [''C'', ''R'']
     \<and> map SALDO_FACTURA (filas (reporte_cxc rep)) = [Some 1160, None]
     \<and> map DELTA_RECAUDO (filas (reporte_cxc rep)) = [None, None]
     \<and> map DELTA_MORA (filas (reporte_cxc rep)) = [Some 60, None]"
  unfolding generar_reporte_cxc_def ej_sin_vinculo_filtrado ej_sin_vinculo_saldo
  apply (simp add: obtener_por_acreditar_def calcular_metricas_ciclo_def calcular_saldo_cliente_def
      Let_def ej_sin_vinculo_columnas con_columna_def es_pagada_def es_abierta_def
      ej_cargo_def ej_abono_def fila_nula_def clave_saldo_cliente_def
      agregar_bandas_grupo_def clave_bandas_def grupo_cargo_def vista_def seleccionar_columnas_def
      COLUMNAS_REPORTE_def extraer_facturas_abiertas_def extraer_facturas_cerradas_def
      categoria_mora_def movimiento_def monto_def)
  done

lemma ej_sin_vinculo_crudo_auditoria:
  "filas (detectar_importes_atipicos est config ej_sin_vinculo_crudo) = []"
  "filas (detectar_sin_tipo_cliente ej_sin_vinculo_crudo) = []"
  "filas (detectar_sin_vendedor ej_sin_vinculo_crudo) = []"
  "filas (analizar_cancelados ej_sin_vinculo_crudo) = []"
  by (simp_all add: detectar_importes_atipicos_def detectar_sin_tipo_cliente_def
      detectar_sin_vendedor_def analizar_cancelados_def Let_def DataFrame_vacio_def
      ej_sin_vinculo_crudo_def ej_columnas_def fila_cruda_nula_def List.map_filter_simps)

lemma length_map_filter_le: "length (List.map_filter f xs) \<le> length xs"
  by (induction xs) (auto simp: List.map_filter_simps split: option.split)

lemma pocos_deltas:
  assumes "length (filas d) < 3"
  shows "filas (detectar_atipicos_delta est config d columna umbral_key) = []"
proof -
  have a: "length (List.map_filter (leer_delta columna) (filter P (filas d))) < 3" for P
    using assms length_map_filter_le [of "leer_delta columna" "filter P (filas d)"]
      length_filter_le [of P "filas d"] by linarith
  have b: "length (List.map_filter (leer_delta columna) (filas d)) < 3"
    using assms length_map_filter_le [of "leer_delta columna" "filas d"] by linarith
  show ?thesis
    unfolding detectar_atipicos_delta_def Let_def
    using a b by (simp add: DataFrame_vacio_def)
qed

text \<open>
  C7, as stated, fails in its second half. The table has no column
  \<open>DOCTO_CC_ACR_ID\<close>: the report gives the charge its full amount, 1160, as balance,
  the payment of 500 not subtracted. The audit of the same table, run with that report,
  finds nothing: every count of its summary is zero, and the summary has no other
  entry. The fallback is written to the log only.
\<close>

theorem saldo_sin_vinculo_counterexample:
  "''DOCTO_CC_ACR_ID'' \<notin> set (columns ej_sin_vinculo)
   \<and> ''DOCTO_CC_ACR_ID'' \<notin> set (columns ej_sin_vinculo_crudo)
   \<and> (\<exists>rep. generar_reporte_cxc exacta 100 ej_sin_vinculo = Inr rep
         \<and> map TIPO_IMPTE (filas (reporte_cxc rep)) = [''C'', ''R'']
         \<and> map SALDO_FACTURA (filas (reporte_cxc rep)) = [Some 1160, None]
         \<and> resumen (run_audit exacta ej_config ej_sin_vinculo_crudo (Some (reporte_cxc rep)))
             = [(''total_registros'', 2), (''importes_atipicos'', 0), (''recaudos_atipicos'', 0),
                (''moras_atipicas'', 0), (''sin_tipo_cliente'', 0), (''sin_vendedor'', 0),
                (''cancelados'', 0), (''total_hallazgos'', 0)])"
proof -
  from ej_sin_vinculo_reporte obtain rep where
    r: "generar_reporte_cxc exacta 100 ej_sin_vinculo = Inr rep"
    and t: "map TIPO_IMPTE (filas (reporte_cxc rep)) = [''C'', ''R'']"
    and s: "map SALDO_FACTURA (filas (reporte_cxc rep)) = [Some 1160, None]"
    by (elim exE conjE)
  have "length (map TIPO_IMPTE (filas (reporte_cxc rep))) = 2"
    unfolding t by simp
  then have l: "length (filas (reporte_cxc rep)) < 3"
    by simp
  have n: "length (filas ej_sin_vinculo_crudo) = 2"
    by (simp add: ej_sin_vinculo_crudo_def)
  have a: "resumen (run_audit exacta ej_config ej_sin_vinculo_crudo (Some (reporte_cxc rep)))
             = [(''total_registros'', 2), (''importes_atipicos'', 0), (''recaudos_atipicos'', 0),
                (''moras_atipicas'', 0), (''sin_tipo_cliente'', 0), (''sin_vendedor'', 0),
                (''cancelados'', 0), (''total_hallazgos'', 0)]"
    by (simp add: run_audit_def generar_resumen_def Let_def ej_sin_vinculo_crudo_auditoria
        pocos_deltas [OF l] n DataFrame_vacio_def)
  have c: "''DOCTO_CC_ACR_ID'' \<notin> set (columns ej_sin_vinculo)"
    "''DOCTO_CC_ACR_ID'' \<notin> set (columns ej_sin_vinculo_crudo)"
    by (simp_all add: ej_sin_vinculo_def ej_sin_vinculo_crudo_def ej_columnas_def)
  show ?thesis
    by (intro conjI exI [of _ rep]) (rule c r t s a)+
qed

lemma detectores_sin_columna_de_vinculo:
  "filas (detectar_importes_atipicos est config (dc\<lparr>columns := removeAll ''DOCTO_CC_ACR_ID'' (columns dc)\<rparr>))
     = filas (detectar_importes_atipicos est config dc)"
  "filas (detectar_sin_tipo_cliente (dc\<lparr>columns := removeAll ''DOCTO_CC_ACR_ID'' (columns dc)\<rparr>))
     = filas (detectar_sin_tipo_cliente dc)"
  "filas (detectar_sin_vendedor (dc\<lparr>columns := removeAll ''DOCTO_CC_ACR_ID'' (columns dc)\<rparr>))
     = filas (detectar_sin_vendedor dc)"
  "filas (analizar_cancelados (dc\<lparr>columns := removeAll ''DOCTO_CC_ACR_ID'' (columns dc)\<rparr>))
     = filas (analizar_cancelados dc)"
  by (simp_all add: detectar_importes_atipicos_def detectar_sin_tipo_cliente_def
      detectar_sin_vendedor_def analizar_cancelados_def Let_def DataFrame_vacio_def)

text \<open>
  C7, amended. When the table has no column \<open>DOCTO_CC_ACR_ID\<close>, the balance of every
  charge is its full amount \<open>IMPORTE + IMPUESTO\<close>, rounded to two decimals, in the
  report and in the KPI module, no payment subtracted. The audit does not record it:
  its summary has the number of rows, the six counts of findings and their total,
  and nothing else, and for a given report frame it is the same summary whether the
  raw table has the column or not.
\<close>

theorem saldo_sin_vinculo_es_monto_total:
  assumes cols: "set [''IMPORTE'', ''IMPUESTO'', ''TIPO_IMPTE''] \<subseteq> set (columns df)"
      and sin: "''DOCTO_CC_ACR_ID'' \<notin> set (columns df)"
  shows "(\<exists>out. calcular_saldo_factura (filtrar_movimientos df) = Inr out
            \<and> map SALDO_FACTURA (filas out)
                = map (\<lambda>r. if TIPO_IMPTE r = ''C'' then Some (round_dec 2 (IMPORTE r + IMPUESTO r))
                           else None)
                    (filas (filtrar_movimientos df)))
       \<and> (\<exists>out. saldos_por_factura (filtrar_activos df) = Inr out
            \<and> map SALDO (filas out)
                = map (\<lambda>r. round_dec 2 (IMPORTE r + IMPUESTO r))
                    (filter (\<lambda>r. TIPO_IMPTE r = ''C'') (filas (filtrar_activos df))))
       \<and> map fst (resumen (run_audit est config dc rep))
           = [''total_registros'', ''importes_atipicos'', ''recaudos_atipicos'', ''moras_atipicas'',
              ''sin_tipo_cliente'', ''sin_vendedor'', ''cancelados'', ''total_hallazgos'']
       \<and> resumen (run_audit est config (dc\<lparr>columns := removeAll ''DOCTO_CC_ACR_ID'' (columns dc)\<rparr>) rep)
           = resumen (run_audit est config dc rep)"
proof (intro conjI)
  show "\<exists>out. calcular_saldo_factura (filtrar_movimientos df) = Inr out
            \<and> map SALDO_FACTURA (filas out)
                = map (\<lambda>r. if TIPO_IMPTE r = ''C'' then Some (round_dec 2 (IMPORTE r + IMPUESTO r))
                           else None)
                    (filas (filtrar_movimientos df))"
    using cols sin by (simp add: calcular_saldo_factura_def Let_def monto_def comp_def)
  show "\<exists>out. saldos_por_factura (filtrar_activos df) = Inr out
            \<and> map SALDO (filas out)
                = map (\<lambda>r. round_dec 2 (IMPORTE r + IMPUESTO r))
                    (filter (\<lambda>r. TIPO_IMPTE r = ''C'') (filas (filtrar_activos df)))"
    unfolding filtrar_activos_eq using cols sin
    by (simp add: saldos_por_factura_def Let_def monto_def comp_def)
  show "map fst (resumen (run_audit est config dc rep))
           = [''total_registros'', ''importes_atipicos'', ''recaudos_atipicos'', ''moras_atipicas'',
              ''sin_tipo_cliente'', ''sin_vendedor'', ''cancelados'', ''total_hallazgos'']"
    by (simp add: run_audit_def generar_resumen_def Let_def)
  show "resumen (run_audit est config (dc\<lparr>columns := removeAll ''DOCTO_CC_ACR_ID'' (columns dc)\<rparr>) rep)
           = resumen (run_audit est config dc rep)"
    by (simp add: run_audit_def generar_resumen_def Let_def detectores_sin_columna_de_vinculo)
qed

text \<open>The amended C7 on the example table without the column: the balance of the
  charge is 1160 in the report and in the KPI module, the payment of 500 ignored.\<close>

theorem saldo_sin_vinculo_es_monto_total_witness:
  "set [''IMPORTE'', ''IMPUESTO'', ''TIPO_IMPTE''] \<subseteq> set (columns ej_sin_vinculo)
   \<and> ''DOCTO_CC_ACR_ID'' \<notin> set (columns ej_sin_vinculo)
   \<and> (\<exists>out. calcular_saldo_factura (filtrar_movimientos ej_sin_vinculo) = Inr out
         \<and> map SALDO_FACTURA (filas out) = [Some 1160, None])
   \<and> (\<exists>out. saldos_por_factura (filtrar_activos ej_sin_vinculo) = Inr out
         \<and> map SALDO (filas out) = [1160])
   \<and> map fst (resumen (run_audit exacta ej_config ej_auditoria None))
       = [''total_registros'', ''importes_atipicos'', ''recaudos_atipicos'', ''moras_atipicas'',
          ''sin_tipo_cliente'', ''sin_vendedor'', ''cancelados'', ''total_hallazgos'']
   \<and> resumen (run_audit exacta ej_config
                (ej_auditoria\<lparr>columns := removeAll ''DOCTO_CC_ACR_ID'' (columns ej_auditoria)\<rparr>) None)
       = resumen (run_audit exacta ej_config ej_auditoria None)"
proof -
  have h: "set [''IMPORTE'', ''IMPUESTO'', ''TIPO_IMPTE''] \<subseteq> set (columns ej_sin_vinculo)"
    "''DOCTO_CC_ACR_ID'' \<notin> set (columns ej_sin_vinculo)"
    by (simp_all add: ej_sin_vinculo_columnas)
  have f: "filas (filtrar_movimientos ej_sin_vinculo) = [ej_cargo, ej_abono\<lparr>DOCTO_CC_ACR_ID := None\<rparr>]"
    unfolding ej_sin_vinculo_filtrado by (simp add: ej_sin_vinculo_def)
  have c: "TIPO_IMPTE ej_cargo = ''C''" "TIPO_IMPTE ej_abono \<noteq> ''C''"
    "IMPORTE ej_cargo = 1000" "IMPUESTO ej_cargo = 160"
    by (simp_all add: ej_cargo_def ej_abono_def fila_nula_def)
  from saldo_sin_vinculo_es_monto_total
         [where df = ej_sin_vinculo and est = exacta and config = ej_config
            and dc = ej_auditoria and rep = None, OF h]
  show ?thesis
    using h by (simp add: f c filtrar_activos_eq round_dec_entero [of 2 1160, simplified])
qed

end
